theory Spec2Isabelle
  imports Main
begin

section \<open>Data model of the LSIF graph (server/src/jsonStore.ts, lsif-protocol)\<close>

text \<open>
  An \<open>Id\<close> of the protocol is \<^verbatim>\<open>number | string\<close>. A JavaScript \<^verbatim>\<open>Map\<close> keeps the
  number 1 and the string "1" apart, and so do the two constructors.
\<close>

datatype Id = IdNum int | IdStr string

record Position =
  line :: nat
  character :: nat

text \<open>\<^verbatim>\<open>lsp.Range\<close>: \<open>start\<close> and \<open>end\<close> (the latter is written \<open>finish\<close> here).\<close>

record LspRange =
  start :: Position
  finish :: Position

text \<open>
  The tag of a range vertex. Declaration and definition tags carry \<open>text\<close>, \<open>kind\<close>,
  \<open>fullRange\<close> and an optional \<open>detail\<close>; reference and unknown tags carry \<open>text\<close> only.
\<close>

datatype RangeTag =
    DeclarationTag string nat LspRange "string option"
  | DefinitionTag string nat LspRange "string option"
  | ReferenceTag string
  | UnknownTag string

text \<open>\<^verbatim>\<open>lsp.DocumentSymbol\<close>: name, detail, kind, range, selectionRange, optional children.\<close>

datatype DocumentSymbol =
  DocumentSymbol string string nat LspRange LspRange "DocumentSymbol list option"

text \<open>\<^verbatim>\<open>RangeBasedDocumentSymbol\<close>: the id of a range and the children (absent = empty).\<close>

datatype RangeBasedDocumentSymbol =
  RangeBasedDocumentSymbol Id "RangeBasedDocumentSymbol list"

text \<open>The \<open>result\<close> of a document symbol result:
  \<^verbatim>\<open>lsp.DocumentSymbol[] | RangeBasedDocumentSymbol[]\<close>.\<close>

datatype SymbolList =
    FullSymbols "DocumentSymbol list"
  | RangeBasedSymbols "RangeBasedDocumentSymbol list"

datatype MonikerKind = MkImport | MkExport | MkLocal

datatype EventKind = EvBegin | EvEnd

datatype EventScope = ScGroup | ScProject | ScDocument

text \<open>
  A vertex is a tagged union over its \<open>label\<close>; every vertex has an id. Only the
  properties that jsonStore.ts reads are kept. The \<open>key\<close> of a moniker is the property
  that \<open>processVertex\<close> adds to non-local monikers.
\<close>

datatype Vertex =
    MetaDataV Id string
  | GroupV Id "string option"
  | ProjectV Id
  | EventV Id EventKind EventScope Id
  | DocumentV Id string "string option"
  | MonikerV Id string string "MonikerKind option" "string option"
  | RangeV Id LspRange "RangeTag option"
  | ResultSetV Id
  | DocumentSymbolResultV Id SymbolList
  | FoldingRangeResultV Id "LspRange list"
  | HoverResultV Id string "LspRange option"
  | DeclarationResultV Id
  | DefinitionResultV Id
  | ReferenceResultV Id
  | OtherV Id string

text \<open>\<open>vertex.id\<close>.\<close>

fun vid :: "Vertex \<Rightarrow> Id" where
  "vid (MetaDataV i _) = i"
| "vid (GroupV i _) = i"
| "vid (ProjectV i) = i"
| "vid (EventV i _ _ _) = i"
| "vid (DocumentV i _ _) = i"
| "vid (MonikerV i _ _ _ _) = i"
| "vid (RangeV i _ _) = i"
| "vid (ResultSetV i) = i"
| "vid (DocumentSymbolResultV i _) = i"
| "vid (FoldingRangeResultV i _) = i"
| "vid (HoverResultV i _ _) = i"
| "vid (DeclarationResultV i) = i"
| "vid (DefinitionResultV i) = i"
| "vid (ReferenceResultV i) = i"
| "vid (OtherV i _) = i"

text \<open>\<open>vertex.uri\<close> and \<open>moniker.key\<close>: \<^verbatim>\<open>undefined\<close> (\<open>None\<close>) on a vertex without the
  property.\<close>

fun vertexUri :: "Vertex \<Rightarrow> string option" where
  "vertexUri (DocumentV _ u _) = Some u"
| "vertexUri _ = None"

fun monikerKey :: "Vertex \<Rightarrow> string option" where
  "monikerKey (MonikerV _ _ _ _ k) = k"
| "monikerKey _ = None"

datatype EdgeLabels =
    EL_contains | EL_item | EL_next | EL_moniker
  | EL_textDocument_documentSymbol | EL_textDocument_foldingRange
  | EL_textDocument_documentLink | EL_textDocument_diagnostic
  | EL_textDocument_declaration | EL_textDocument_definition
  | EL_textDocument_typeDefinition | EL_textDocument_hover
  | EL_textDocument_references | EL_textDocument_implementation
  | EL_other string

datatype ItemEdgeProperties =
    IP_declarations | IP_definitions | IP_references
  | IP_referenceResults | IP_referenceLinks | IP_other string

text \<open>An edge is 1:1 (\<open>outV\<close>, \<open>inV\<close>) or 1:N (\<open>outV\<close>, \<open>inVs\<close>); \<open>property\<close> is optional.\<close>

datatype Edge =
    E11 EdgeLabels Id Id "ItemEdgeProperties option"
  | E1N EdgeLabels Id "Id list" "ItemEdgeProperties option"

text \<open>\<^verbatim>\<open>ItemTarget\<close>: a plain range, or the target wrapped with the property of its item
  edge.\<close>

datatype ItemTarget =
    PlainTarget Vertex
  | DeclarationsTarget Vertex
  | DefinitionsTarget Vertex
  | ReferencesTarget Vertex
  | ReferenceResultsTarget Vertex
  | ReferenceLinksTarget Vertex

text \<open>The value of \<open>indices.documents\<close>: \<^verbatim>\<open>{ hash: string, documents: Document[] }\<close>.\<close>

record Bucket =
  hash :: string
  documents :: "Vertex list"

text \<open>
  The fields of \<open>JsonStore\<close>: \<open>version\<close>, \<open>projectRoot\<close>, \<open>activeGroup\<close>, \<open>activeProject\<close>,
  \<open>vertices\<close>, \<open>indices\<close>, \<open>out\<close> and \<open>in\<close>. Every \<^verbatim>\<open>Map\<close> is a partial function. The
  maps hold the vertex objects themselves; no vertex is changed after the call of
  \<open>processVertex\<close> that stored it, so holding the value is holding the object.
  \<open>console\<close> collects what \<^verbatim>\<open>console.error\<close> printed.
\<close>

record Store =
  version :: "string option"
  projectRoot :: "string option"
  activeGroup :: "Id option"
  activeProject :: "Id option"
  vertices_all :: "Id \<rightharpoonup> Vertex"
  vertices_projects :: "Id \<rightharpoonup> Vertex"
  vertices_documents :: "Id \<rightharpoonup> Vertex"
  vertices_ranges :: "Id \<rightharpoonup> Vertex"
  indices_monikers :: "string \<rightharpoonup> Vertex list"
  indices_contents :: "string \<rightharpoonup> string"
  indices_documents :: "string \<rightharpoonup> Bucket"
  out_contains :: "Id \<rightharpoonup> Vertex list"
  out_item :: "Id \<rightharpoonup> ItemTarget list"
  out_next :: "Id \<rightharpoonup> Vertex"
  out_moniker :: "Id \<rightharpoonup> Vertex"
  out_documentSymbol :: "Id \<rightharpoonup> Vertex"
  out_foldingRange :: "Id \<rightharpoonup> Vertex"
  out_documentLink :: "Id \<rightharpoonup> Vertex"
  out_diagnostic :: "Id \<rightharpoonup> Vertex"
  out_declaration :: "Id \<rightharpoonup> Vertex"
  out_definition :: "Id \<rightharpoonup> Vertex"
  out_typeDefinition :: "Id \<rightharpoonup> Vertex"
  out_hover :: "Id \<rightharpoonup> Vertex"
  out_references :: "Id \<rightharpoonup> Vertex"
  out_implementation :: "Id \<rightharpoonup> Vertex"
  in_contains :: "Id \<rightharpoonup> Vertex"
  in_previous :: "Id \<rightharpoonup> Vertex"
  in_moniker :: "Id \<rightharpoonup> Vertex"
  console :: "string list"

text \<open>The store the constructor builds: every map empty, every field undefined.\<close>

definition emptyStore :: Store where
  "emptyStore = \<lparr>
     version = None, projectRoot = None, activeGroup = None, activeProject = None,
     vertices_all = Map.empty, vertices_projects = Map.empty,
     vertices_documents = Map.empty, vertices_ranges = Map.empty,
     indices_monikers = Map.empty, indices_contents = Map.empty,
     indices_documents = Map.empty,
     out_contains = Map.empty, out_item = Map.empty, out_next = Map.empty,
     out_moniker = Map.empty, out_documentSymbol = Map.empty,
     out_foldingRange = Map.empty, out_documentLink = Map.empty,
     out_diagnostic = Map.empty, out_declaration = Map.empty,
     out_definition = Map.empty, out_typeDefinition = Map.empty,
     out_hover = Map.empty, out_references = Map.empty,
     out_implementation = Map.empty,
     in_contains = Map.empty, in_previous = Map.empty, in_moniker = Map.empty,
     console = [] \<rparr>"

text \<open>
  What \<^verbatim>\<open>JSON.parse\<close> returns for a line, as far as \<open>load\<close> looks at it: \<^verbatim>\<open>null\<close>, a
  record whose \<open>type\<close> is \<open>vertex\<close>, one whose \<open>type\<close> is \<open>edge\<close>, or any other value (a
  number, a string, an array, an object whose \<open>type\<close> is absent or something else).
\<close>

datatype JsonValue = JNull | JVertex Vertex | JEdge Edge | JOther

text \<open>
  The platform and the collaborators that jsonStore.ts calls and that are not part of
  it, taken as parameters:
  \<^item> \<open>jsonParse\<close>: \<^verbatim>\<open>JSON.parse\<close>, \<open>None\<close> when it throws a SyntaxError;
  \<^item> \<open>uriParse\<close>: \<^verbatim>\<open>URI.parse\<close> of vscode-uri, \<open>None\<close> when it throws;
  \<^item> \<open>md5\<close>: \<^verbatim>\<open>crypto.createHash('md5').update(x).digest('base64')\<close>;
  \<^item> \<open>stringifyKey\<close>: \<^verbatim>\<open>JSON.stringify({ s: scheme, i: identifier }, undefined, 0)\<close>;
  \<^item> \<open>toDatabase\<close>, \<open>fromDatabase\<close>, \<open>asRange\<close>: the methods of the base class
    \<open>Database\<close> (\<open>fromDatabase\<close> is handed \<open>document.uri\<close>, which is \<^verbatim>\<open>undefined\<close> on a
    container that is not a document).
\<close>

record Platform =
  jsonParse :: "string \<Rightarrow> JsonValue option"
  uriParse :: "string \<Rightarrow> string option"
  md5 :: "string \<Rightarrow> string"
  stringifyKey :: "string \<Rightarrow> string \<Rightarrow> string"
  toDatabase :: "string \<Rightarrow> string"
  fromDatabase :: "string option \<Rightarrow> string"
  asRange :: "Vertex \<Rightarrow> LspRange"

text \<open>Every \<^verbatim>\<open>throw\<close> that \<open>load\<close> turns into a rejection, and the rejections of its
  \<open>close\<close> handler.\<close>

datatype Error =
    SyntaxError string
  | TypeError
  | UriError string
  | NoVertexFound Id
  | NoProjectRoot
  | NoVersionFound
  | NoValidSemVer string
  | RequiresVersion string

section \<open>Ingestion: processVertex, doProcessDocument, processEdge, doProcessEdge\<close>

text \<open>
  \<open>doProcessDocument\<close>: the document is registered under its id, its content (or the
  sentinel text) under its hash; the bucket of its uri is created with this hash when
  there is none; a different hash is reported on the console; the document is pushed to
  the bucket.
\<close>

definition doProcessDocument :: "Platform \<Rightarrow> Store \<Rightarrow> Id \<Rightarrow> string \<Rightarrow> string option \<Rightarrow> Store" where
  "doProcessDocument pf st i u c =
     (let document = DocumentV i u c;
          contents = (case c of Some t \<Rightarrow> t | None \<Rightarrow> ''No content provided.'');
          st1 = st\<lparr>vertices_documents := (vertices_documents st)(i \<mapsto> document)\<rparr>;
          h = md5 pf contents;
          st2 = st1\<lparr>indices_contents := (indices_contents st1)(h \<mapsto> contents)\<rparr>;
          val = (case indices_documents st2 u of
                   None \<Rightarrow> \<lparr>hash = h, documents = []\<rparr>
                 | Some b \<Rightarrow> b);
          st3 = (if h \<noteq> hash val
                 then st2\<lparr>console := console st2 @ [''Document '' @ u @ '' has different content.'']\<rparr>
                 else st2)
      in st3\<lparr>indices_documents :=
               (indices_documents st3)(u \<mapsto> val\<lparr>documents := documents val @ [document]\<rparr>)\<rparr>)"

text \<open>
  \<open>processVertex\<close>. The vertex is stored in \<open>vertices.all\<close> first. A non-local moniker
  gets its \<open>key\<close> set on the object that \<open>vertices.all\<close> already holds, so the stored
  vertex is the one with the key.
\<close>

definition processVertex :: "Platform \<Rightarrow> Store \<Rightarrow> Vertex \<Rightarrow> Error + Store" where
  "processVertex pf st vertex =
     (let st1 = st\<lparr>vertices_all := (vertices_all st)(vid vertex \<mapsto> vertex)\<rparr> in
      case vertex of
        MetaDataV i v \<Rightarrow> Inr (st1\<lparr>version := Some v\<rparr>)
      | GroupV i r \<Rightarrow>
          (case r of
             None \<Rightarrow> Inr st1
           | Some u \<Rightarrow>
               (case uriParse pf u of
                  None \<Rightarrow> Inl (UriError u)
                | Some p \<Rightarrow> Inr (st1\<lparr>projectRoot := Some p\<rparr>)))
      | ProjectV i \<Rightarrow> Inr (st1\<lparr>vertices_projects := (vertices_projects st1)(i \<mapsto> vertex)\<rparr>)
      | EventV i k s d \<Rightarrow>
          Inr (if k = EvBegin
               then (case s of
                       ScGroup \<Rightarrow> st1\<lparr>activeGroup := Some d\<rparr>
                     | ScProject \<Rightarrow> st1\<lparr>activeProject := Some d\<rparr>
                     | ScDocument \<Rightarrow> st1)
               else st1)
      | DocumentV i u c \<Rightarrow> Inr (doProcessDocument pf st1 i u c)
      | MonikerV i sch ident k oldKey \<Rightarrow>
          (if k \<noteq> Some MkLocal
           then (let ky = md5 pf (stringifyKey pf sch ident);
                     m = MonikerV i sch ident k (Some ky);
                     vals = (case indices_monikers st1 ky of None \<Rightarrow> [] | Some ms \<Rightarrow> ms)
                 in Inr (st1\<lparr>vertices_all := (vertices_all st1)(i \<mapsto> m),
                              indices_monikers := (indices_monikers st1)(ky \<mapsto> vals @ [m])\<rparr>))
           else Inr st1)
      | RangeV i sp tg \<Rightarrow> Inr (st1\<lparr>vertices_ranges := (vertices_ranges st1)(i \<mapsto> vertex)\<rparr>)
      | _ \<Rightarrow> Inr st1)"

text \<open>The \<open>itemTarget\<close> that the \<open>item\<close> case of \<open>doProcessEdge\<close> builds: the target itself
  without a property, the wrapped target for the five known properties, nothing for any
  other property.\<close>

fun itemTargetOf :: "ItemEdgeProperties option \<Rightarrow> Vertex \<Rightarrow> ItemTarget option" where
  "itemTargetOf None t = Some (PlainTarget t)"
| "itemTargetOf (Some IP_references) t = Some (ReferencesTarget t)"
| "itemTargetOf (Some IP_declarations) t = Some (DeclarationsTarget t)"
| "itemTargetOf (Some IP_definitions) t = Some (DefinitionsTarget t)"
| "itemTargetOf (Some IP_referenceResults) t = Some (ReferenceResultsTarget t)"
| "itemTargetOf (Some IP_referenceLinks) t = Some (ReferenceLinksTarget t)"
| "itemTargetOf (Some (IP_other _)) t = None"

text \<open>
  \<open>doProcessEdge\<close>: both endpoints are looked up in \<open>vertices.all\<close>, \<open>outV\<close> first; a
  missing one throws \<^verbatim>\<open>No vertex found for Id ...\<close>. Then the maps of the label are
  updated; a label without a case changes nothing.
\<close>

definition doProcessEdge ::
  "Store \<Rightarrow> EdgeLabels \<Rightarrow> Id \<Rightarrow> Id \<Rightarrow> ItemEdgeProperties option \<Rightarrow> Error + Store" where
  "doProcessEdge st label outV inV property =
     (case vertices_all st outV of
        None \<Rightarrow> Inl (NoVertexFound outV)
      | Some fromV \<Rightarrow>
     (case vertices_all st inV of
        None \<Rightarrow> Inl (NoVertexFound inV)
      | Some toV \<Rightarrow>
          Inr (case label of
            EL_contains \<Rightarrow>
              st\<lparr>out_contains := (out_contains st)(vid fromV \<mapsto>
                     (case out_contains st (vid fromV) of
                        None \<Rightarrow> [toV]
                      | Some vals \<Rightarrow> vals @ [toV])),
                 in_contains := (in_contains st)(vid toV \<mapsto> fromV)\<rparr>
          | EL_item \<Rightarrow>
              (case itemTargetOf property toV of
                 None \<Rightarrow> st
               | Some target \<Rightarrow>
                   st\<lparr>out_item := (out_item st)(vid fromV \<mapsto>
                          (case out_item st (vid fromV) of
                             None \<Rightarrow> [target]
                           | Some vals \<Rightarrow> vals @ [target]))\<rparr>)
          | EL_next \<Rightarrow>
              st\<lparr>out_next := (out_next st)(vid fromV \<mapsto> toV),
                 in_previous := (in_previous st)(vid toV \<mapsto> fromV)\<rparr>
          | EL_moniker \<Rightarrow>
              st\<lparr>out_moniker := (out_moniker st)(vid fromV \<mapsto> toV),
                 in_moniker := (in_moniker st)(vid toV \<mapsto> fromV)\<rparr>
          | EL_textDocument_documentSymbol \<Rightarrow>
              st\<lparr>out_documentSymbol := (out_documentSymbol st)(vid fromV \<mapsto> toV)\<rparr>
          | EL_textDocument_foldingRange \<Rightarrow>
              st\<lparr>out_foldingRange := (out_foldingRange st)(vid fromV \<mapsto> toV)\<rparr>
          | EL_textDocument_documentLink \<Rightarrow>
              st\<lparr>out_documentLink := (out_documentLink st)(vid fromV \<mapsto> toV)\<rparr>
          | EL_textDocument_diagnostic \<Rightarrow>
              st\<lparr>out_diagnostic := (out_diagnostic st)(vid fromV \<mapsto> toV)\<rparr>
          | EL_textDocument_definition \<Rightarrow>
              st\<lparr>out_definition := (out_definition st)(vid fromV \<mapsto> toV)\<rparr>
          | EL_textDocument_typeDefinition \<Rightarrow>
              st\<lparr>out_typeDefinition := (out_typeDefinition st)(vid fromV \<mapsto> toV)\<rparr>
          | EL_textDocument_hover \<Rightarrow>
              st\<lparr>out_hover := (out_hover st)(vid fromV \<mapsto> toV)\<rparr>
          | EL_textDocument_references \<Rightarrow>
              st\<lparr>out_references := (out_references st)(vid fromV \<mapsto> toV)\<rparr>
          | _ \<Rightarrow> st)))"

text \<open>The loop of \<open>processEdge\<close> over \<open>edge.inVs\<close>: one \<open>doProcessEdge\<close> per element, in
  order, stopping at the first that throws.\<close>

fun doProcessEdges ::
  "Store \<Rightarrow> EdgeLabels \<Rightarrow> Id \<Rightarrow> Id list \<Rightarrow> ItemEdgeProperties option \<Rightarrow> Error + Store" where
  "doProcessEdges st label outV [] property = Inr st"
| "doProcessEdges st label outV (inV # inVs) property =
     (case doProcessEdge st label outV inV property of
        Inl e \<Rightarrow> Inl e
      | Inr st' \<Rightarrow> doProcessEdges st' label outV inVs property)"

text \<open>\<open>processEdge\<close>: the property counts for \<open>item\<close> edges only.\<close>

fun processEdge :: "Store \<Rightarrow> Edge \<Rightarrow> Error + Store" where
  "processEdge st (E11 label outV inV property) =
     doProcessEdge st label outV inV (if label = EL_item then property else None)"
| "processEdge st (E1N label outV inVs property) =
     doProcessEdges st label outV inVs (if label = EL_item then property else None)"

section \<open>load\<close>

text \<open>
  The handler of the \<open>line\<close> event: an empty line returns at once; otherwise the line is
  parsed and dispatched on \<open>element.type\<close> (\<open>processElement\<close>). The \<^verbatim>\<open>switch\<close> has the
  two cases \<open>vertex\<close> and \<open>edge\<close> and no default. Reading \<open>type\<close> of \<^verbatim>\<open>null\<close> throws a
  TypeError. Whatever is thrown inside the \<^verbatim>\<open>try\<close> rejects the promise.
\<close>

fun processElement :: "Platform \<Rightarrow> Store \<Rightarrow> JsonValue \<Rightarrow> Error + Store" where
  "processElement pf st JNull = Inl TypeError"
| "processElement pf st (JVertex v) = processVertex pf st v"
| "processElement pf st (JEdge e) = processEdge st e"
| "processElement pf st JOther = Inr st"

definition processLine :: "Platform \<Rightarrow> Store \<Rightarrow> string \<Rightarrow> Error + Store" where
  "processLine pf st ln =
     (if ln = [] then Inr st
      else (case jsonParse pf ln of
              None \<Rightarrow> Inl (SyntaxError ln)
            | Some element \<Rightarrow> processElement pf st element))"

text \<open>The lines in order. A promise settles once: the first rejection is the outcome of
  \<open>load\<close>, whatever later lines do.\<close>

fun processLines :: "Platform \<Rightarrow> Store \<Rightarrow> string list \<Rightarrow> Error + Store" where
  "processLines pf st [] = Inr st"
| "processLines pf st (ln # lns) =
     (case processLine pf st ln of
        Inl e \<Rightarrow> Inl e
      | Inr st' \<Rightarrow> processLines pf st' lns)"

section \<open>The version gate\<close>

text \<open>
  Modelled from the spec: the \<open>semver\<close> package (\<open>SemVer.parse\<close>, \<open>SemVer.Range\<close>,
  \<open>SemVer.satisfies\<close>) is not among the sources. The spec says that the version must
  parse "as semantic version" and satisfy \<^verbatim>\<open>>0.4.99 <=0.5.0-next.2\<close> "inclusive of
  pre-release tags". The definitions of this section, down to \<open>satisfiesRange\<close>, follow
  those words with the grammar and the precedence of Semantic Versioning:
  \<open>MAJOR.MINOR.PATCH\<close>, an optional \<open>-prerelease\<close> and an optional \<open>+build\<close>; numeric
  identifiers without leading zeros; versions compared by major, minor and patch, then
  a version with a prerelease below the same version without one, then the prerelease
  identifiers from the left (numeric ones by value and below alphanumeric ones,
  alphanumeric ones by character code, a shorter list below its extensions).
\<close>

datatype PrereleaseId = NumericId nat | AlphanumId string

record SemVer =
  major :: nat
  minor :: nat
  patch :: nat
  prerelease :: "PrereleaseId list"

definition isDigit :: "char \<Rightarrow> bool" where
  "isDigit c = (c \<in> set ''0123456789'')"

definition isIdentifierChar :: "char \<Rightarrow> bool" where
  "isIdentifierChar c =
     (c \<in> set ''0123456789abcdefghijklmnopqrstuvwxyzABCDEFGHIJKLMNOPQRSTUVWXYZ-'')"

definition digitValue :: "char \<Rightarrow> nat" where
  "digitValue c = of_char c - 48"

definition numberOf :: "string \<Rightarrow> nat" where
  "numberOf s = foldl (\<lambda>n c. 10 * n + digitValue c) 0 s"

definition numericIdentifier :: "string \<Rightarrow> nat option" where
  "numericIdentifier s =
     (if s \<noteq> [] \<and> list_all isDigit s \<and> (s = ''0'' \<or> hd s \<noteq> CHR ''0'')
      then Some (numberOf s) else None)"

definition prereleaseIdentifier :: "string \<Rightarrow> PrereleaseId option" where
  "prereleaseIdentifier s =
     (if s = [] \<or> \<not> list_all isIdentifierChar s then None
      else if list_all isDigit s then map_option NumericId (numericIdentifier s)
      else Some (AlphanumId s))"

definition buildIdentifier :: "string \<Rightarrow> bool" where
  "buildIdentifier s = (s \<noteq> [] \<and> list_all isIdentifierChar s)"

fun splitOn :: "char \<Rightarrow> string \<Rightarrow> string list" where
  "splitOn c [] = [[]]"
| "splitOn c (x # xs) =
     (if x = c then [] # splitOn c xs
      else (case splitOn c xs of
              [] \<Rightarrow> [[x]]
            | w # ws \<Rightarrow> (x # w) # ws))"

definition semverParse :: "string \<Rightarrow> SemVer option" where
  "semverParse s =
     (let noBuild = takeWhile (\<lambda>c. c \<noteq> CHR ''+'') s;
          build = dropWhile (\<lambda>c. c \<noteq> CHR ''+'') s;
          core = takeWhile (\<lambda>c. c \<noteq> CHR ''-'') noBuild;
          pre = dropWhile (\<lambda>c. c \<noteq> CHR ''-'') noBuild
      in if build \<noteq> [] \<and> \<not> list_all buildIdentifier (splitOn (CHR ''.'') (tl build)) then None
         else (case map numericIdentifier (splitOn (CHR ''.'') core) of
                 [Some ma, Some mi, Some pa] \<Rightarrow>
                   (if pre = [] then Some \<lparr>major = ma, minor = mi, patch = pa, prerelease = []\<rparr>
                    else (case those (map prereleaseIdentifier (splitOn (CHR ''.'') (tl pre))) of
                            None \<Rightarrow> None
                          | Some ids \<Rightarrow> Some \<lparr>major = ma, minor = mi, patch = pa, prerelease = ids\<rparr>))
               | _ \<Rightarrow> None))"

datatype Ordering = LT | EQ | GT

definition compareNat :: "nat \<Rightarrow> nat \<Rightarrow> Ordering" where
  "compareNat a b = (if a < b then LT else if a = b then EQ else GT)"

fun compareString :: "string \<Rightarrow> string \<Rightarrow> Ordering" where
  "compareString [] [] = EQ"
| "compareString [] (y # ys) = LT"
| "compareString (x # xs) [] = GT"
| "compareString (x # xs) (y # ys) =
     (if (of_char x :: nat) < of_char y then LT
      else if (of_char x :: nat) > of_char y then GT
      else compareString xs ys)"

fun compareIdentifiers :: "PrereleaseId \<Rightarrow> PrereleaseId \<Rightarrow> Ordering" where
  "compareIdentifiers (NumericId a) (NumericId b) = compareNat a b"
| "compareIdentifiers (NumericId a) (AlphanumId b) = LT"
| "compareIdentifiers (AlphanumId a) (NumericId b) = GT"
| "compareIdentifiers (AlphanumId a) (AlphanumId b) = compareString a b"

fun compareIds :: "PrereleaseId list \<Rightarrow> PrereleaseId list \<Rightarrow> Ordering" where
  "compareIds [] [] = EQ"
| "compareIds (a # as) [] = GT"
| "compareIds [] (b # bs) = LT"
| "compareIds (a # as) (b # bs) =
     (case compareIdentifiers a b of EQ \<Rightarrow> compareIds as bs | r \<Rightarrow> r)"

definition comparePre :: "SemVer \<Rightarrow> SemVer \<Rightarrow> Ordering" where
  "comparePre a b =
     (if prerelease a \<noteq> [] \<and> prerelease b = [] then LT
      else if prerelease a = [] \<and> prerelease b \<noteq> [] then GT
      else compareIds (prerelease a) (prerelease b))"

definition compareMain :: "SemVer \<Rightarrow> SemVer \<Rightarrow> Ordering" where
  "compareMain a b =
     (case compareNat (major a) (major b) of
        EQ \<Rightarrow> (case compareNat (minor a) (minor b) of
                 EQ \<Rightarrow> compareNat (patch a) (patch b)
               | r \<Rightarrow> r)
      | r \<Rightarrow> r)"

definition compareSemVer :: "SemVer \<Rightarrow> SemVer \<Rightarrow> Ordering" where
  "compareSemVer a b = (case compareMain a b of EQ \<Rightarrow> comparePre a b | r \<Rightarrow> r)"

definition lowerBound :: SemVer where
  "lowerBound = \<lparr>major = 0, minor = 4, patch = 99, prerelease = []\<rparr>"

definition upperBound :: SemVer where
  "upperBound = \<lparr>major = 0, minor = 5, patch = 0, prerelease = [AlphanumId ''next'', NumericId 2]\<rparr>"

definition satisfiesRange :: "SemVer \<Rightarrow> bool" where
  "satisfiesRange v = (compareSemVer v lowerBound = GT \<and> compareSemVer v upperBound \<noteq> GT)"

text \<open>
  The handler of the \<open>close\<close> event: it rejects without a project root, without a
  version, with a version that \<open>SemVer.parse\<close> refuses, and with a version outside the
  range (\<^verbatim>\<open>Requires version 0.5.0 or higher but received: ...\<close>). The range is built
  from \<^verbatim>\<open>'>0.4.99 <=0.5.0-next.2'\<close> and has \<open>includePrerelease\<close> set.
\<close>

definition onClose :: "Store \<Rightarrow> Error + Store" where
  "onClose st =
     (case projectRoot st of
        None \<Rightarrow> Inl NoProjectRoot
      | Some root \<Rightarrow>
     (case version st of
        None \<Rightarrow> Inl NoVersionFound
      | Some v \<Rightarrow>
     (case semverParse v of
        None \<Rightarrow> Inl (NoValidSemVer v)
      | Some semVer \<Rightarrow>
          if satisfiesRange semVer then Inr st else Inl (RequiresVersion v))))"

text \<open>
  \<open>load\<close>: the lines from the store of the constructor, then the \<open>close\<close> handler.
  \<open>Inl\<close> is the rejected promise: it carries the error and no store.
\<close>

definition load :: "Platform \<Rightarrow> string list \<Rightarrow> Error + Store" where
  "load pf lns =
     (case processLines pf emptyStore lns of
        Inl e \<Rightarrow> Inl e
      | Inr st \<Rightarrow> onClose st)"

section \<open>Queries\<close>

text \<open>
  \<open>findFile\<close> and \<open>fileContent\<close>. \<open>result.documents[0].id\<close> throws a TypeError on an
  empty bucket (\<open>load\<close> never builds one, see \<open>bucket_nonempty\<close>).
\<close>

definition findFile :: "Store \<Rightarrow> string \<Rightarrow> Error + (Id \<times> string) option" where
  "findFile st u =
     (case indices_documents st u of
        None \<Rightarrow> Inr None
      | Some res \<Rightarrow>
          (case documents res of
             [] \<Rightarrow> Inl TypeError
           | d # _ \<Rightarrow> Inr (Some (vid d, hash res))))"

definition fileContent :: "Store \<Rightarrow> Id \<times> string \<Rightarrow> string option" where
  "fileContent st info = indices_contents st (snd info)"

text \<open>The static helpers \<open>containsPosition\<close> and \<open>containsRange\<close>, test by test.\<close>

definition containsPosition :: "LspRange \<Rightarrow> Position \<Rightarrow> bool" where
  "containsPosition rng position =
     (if line position < line (start rng) \<or> line position > line (finish rng) then False
      else if line position = line (start rng) \<and> character position < character (start rng) then False
      else if line position = line (finish rng) \<and> character position > character (finish rng) then False
      else True)"

definition containsRange :: "LspRange \<Rightarrow> LspRange \<Rightarrow> bool" where
  "containsRange rng otherRange =
     (if line (start otherRange) < line (start rng) \<or> line (finish otherRange) < line (start rng) then False
      else if line (start otherRange) > line (finish rng) \<or> line (finish otherRange) > line (finish rng) then False
      else if line (start otherRange) = line (start rng) \<and> character (start otherRange) < character (start rng) then False
      else if line (finish otherRange) = line (finish rng) \<and> character (finish otherRange) > character (finish rng) then False
      else True)"

text \<open>
  The loop of \<open>findRangeFromPosition\<close> over the contained items: an item whose label is
  not \<open>range\<close> is skipped; an item that contains the position becomes the candidate
  when there is none, and replaces the candidate when \<open>containsRange(candidate, item)\<close>.
  The candidate is always a range vertex; \<open>candidateContains\<close> reads its span.
\<close>

fun candidateContains :: "Vertex \<Rightarrow> LspRange \<Rightarrow> bool" where
  "candidateContains (RangeV _ sp _) other = containsRange sp other"
| "candidateContains _ other = False"

fun candidateLoop :: "Position \<Rightarrow> Vertex list \<Rightarrow> Vertex option \<Rightarrow> Vertex option" where
  "candidateLoop position [] candidate = candidate"
| "candidateLoop position (RangeV i sp tg # rest) candidate =
     (if containsPosition sp position
      then (case candidate of
              None \<Rightarrow> candidateLoop position rest (Some (RangeV i sp tg))
            | Some c \<Rightarrow>
                if candidateContains c sp
                then candidateLoop position rest (Some (RangeV i sp tg))
                else candidateLoop position rest candidate)
      else candidateLoop position rest candidate)"
| "candidateLoop position (_ # rest) candidate = candidateLoop position rest candidate"

text \<open>
  \<open>findRangeFromPosition\<close>: the bucket of the file, the id of its first document, the
  items that document contains.
\<close>

definition findRangeFromPosition :: "Store \<Rightarrow> string \<Rightarrow> Position \<Rightarrow> Error + Vertex option" where
  "findRangeFromPosition st file position =
     (case indices_documents st file of
        None \<Rightarrow> Inr None
      | Some val \<Rightarrow>
          (case documents val of
             [] \<Rightarrow> Inl TypeError
           | d # _ \<Rightarrow>
               (case out_contains st (vid d) of
                  None \<Rightarrow> Inr None
                | Some contains \<Rightarrow>
                    if contains = [] then Inr None
                    else Inr (candidateLoop position contains None))))"

text \<open>
  \<open>getResultForId\<close>: the \<^verbatim>\<open>do ... while (true)\<close> loop, with \<open>currentId\<close> as its state.
  The loop looks \<open>edges\<close> up at \<open>currentId\<close> and \<open>out.next\<close> at \<open>id\<close>, as the source does.
  It may run forever: not returning is the value \<open>None\<close>.
\<close>

partial_function (option) getResultLoop ::
  "Store \<Rightarrow> (Id \<rightharpoonup> 'a) \<Rightarrow> Id \<Rightarrow> Id \<Rightarrow> ('a option \<times> Id) option" where
  "getResultLoop st edges i currentId =
     (case edges currentId of
        Some res \<Rightarrow> Some (Some res, currentId)
      | None \<Rightarrow>
          (case out_next st i of
             None \<Rightarrow> Some (None, i)
           | Some nxt \<Rightarrow> getResultLoop st edges i (vid nxt)))"

definition getResultForId :: "Store \<Rightarrow> Id \<Rightarrow> (Id \<rightharpoonup> 'a) \<Rightarrow> ('a option \<times> Id) option" where
  "getResultForId st i edges = getResultLoop st edges i i"

text \<open>
  \<open>findMonikers\<close>: the same loop shape over \<open>out.moniker\<close> at \<open>currentId\<close> and
  \<open>in.previous\<close> at \<open>id\<close>; the moniker found is pushed to \<open>result\<close>.
\<close>

partial_function (option) findMonikersLoop ::
  "Store \<Rightarrow> Vertex list \<Rightarrow> Id \<Rightarrow> Id \<Rightarrow> Vertex list option" where
  "findMonikersLoop st res i currentId =
     (case out_moniker st currentId of
        Some moniker \<Rightarrow> Some (res @ [moniker])
      | None \<Rightarrow>
          (case in_previous st i of
             None \<Rightarrow> Some res
           | Some previous \<Rightarrow> findMonikersLoop st res i (vid previous)))"

definition findMonikers :: "Store \<Rightarrow> Vertex list \<Rightarrow> Id \<Rightarrow> Vertex list option" where
  "findMonikers st res i = findMonikersLoop st res i i"

definition findVertexForMoniker :: "Store \<Rightarrow> Vertex \<Rightarrow> Vertex option" where
  "findVertexForMoniker st moniker = in_moniker st (vid moniker)"

text \<open>\<open>item\<close>: the item targets of a declaration, definition or reference result, by the
  label of the vertex; \<^verbatim>\<open>undefined\<close> for any other vertex.\<close>

fun item :: "Store \<Rightarrow> Vertex \<Rightarrow> ItemTarget list option" where
  "item st (DeclarationResultV i) = out_item st i"
| "item st (DefinitionResultV i) = out_item st i"
| "item st (ReferenceResultV i) = out_item st i"
| "item st _ = None"

text \<open>
  \<^verbatim>\<open>lsp.Location\<close>, and the mutable arguments that \<open>references\<close> threads through its
  helpers: \<open>result\<close> (\<open>locations\<close>), \<open>dedupRanges\<close>, \<open>monikers\<close> and \<open>dedupMonikers\<close>. A
  JavaScript \<^verbatim>\<open>Set\<close> keeps its elements in insertion order, so each set is the list of
  its elements in that order. The key of a local moniker is \<^verbatim>\<open>undefined\<close> (\<open>None\<close>).
\<close>

datatype Location = Location string LspRange

record Refs =
  locations :: "Location list"
  dedupRanges :: "Id list"
  monikers :: "Vertex list"
  dedupMonikers :: "string option list"

text \<open>
  \<open>addLocation\<close>. No vertex has a \<open>range\<close> property, so \<^verbatim>\<open>lsp.Location.is(value)\<close> is
  false and the second branch runs: nothing is added for an id that \<open>dedup\<close> has;
  otherwise the container of the range is read (\<open>document.uri\<close> of \<^verbatim>\<open>undefined\<close> throws a
  TypeError), the location is pushed and the id is added to \<open>dedup\<close>.
\<close>

definition addLocation :: "Platform \<Rightarrow> Store \<Rightarrow> Vertex \<Rightarrow> Refs \<Rightarrow> Error + Refs" where
  "addLocation pf st val acc =
     (if vid val \<in> set (dedupRanges acc) then Inr acc
      else (case in_contains st (vid val) of
              None \<Rightarrow> Inl TypeError
            | Some document \<Rightarrow>
                Inr (acc\<lparr>locations := locations acc @
                            [Location (fromDatabase pf (vertexUri document)) (asRange pf val)],
                         dedupRanges := dedupRanges acc @ [vid val]\<rparr>)))"

text \<open>
  \<open>resolveReferenceResult\<close>. \<open>resolveTargets\<close> is its \<^verbatim>\<open>for\<close> loop over the targets; the
  case of a \<open>referenceResults\<close> target is the recursive call, which starts with \<open>item\<close>
  of the nested result. The recursion follows the item edges and need not end.
\<close>

partial_function (option) resolveTargets ::
  "Platform \<Rightarrow> Store \<Rightarrow> bool \<Rightarrow> ItemTarget list \<Rightarrow> Refs \<Rightarrow> (Error + Refs) option" where
  "resolveTargets pf st includeDeclaration targets acc =
     (case targets of
        [] \<Rightarrow> Some (Inr acc)
      | target # rest \<Rightarrow>
          Option.bind
            (case target of
               DeclarationsTarget r \<Rightarrow>
                 Some (if includeDeclaration then addLocation pf st r acc else Inr acc)
             | DefinitionsTarget r \<Rightarrow>
                 Some (if includeDeclaration then addLocation pf st r acc else Inr acc)
             | ReferencesTarget r \<Rightarrow> Some (addLocation pf st r acc)
             | ReferenceResultsTarget rr \<Rightarrow>
                 (case item st rr of
                    None \<Rightarrow> Some (Inr acc)
                  | Some ts \<Rightarrow> resolveTargets pf st includeDeclaration ts acc)
             | ReferenceLinksTarget m \<Rightarrow> Some (Inr (acc\<lparr>monikers := monikers acc @ [m]\<rparr>))
             | PlainTarget r \<Rightarrow> Some (Inr acc))
            (\<lambda>r. case r of
                   Inl e \<Rightarrow> Some (Inl e)
                 | Inr acc' \<Rightarrow> resolveTargets pf st includeDeclaration rest acc'))"

definition resolveReferenceResult ::
  "Platform \<Rightarrow> Store \<Rightarrow> bool \<Rightarrow> Vertex \<Rightarrow> Refs \<Rightarrow> (Error + Refs) option" where
  "resolveReferenceResult pf st includeDeclaration referenceResult acc =
     (case item st referenceResult of
        None \<Rightarrow> Some (Inr acc)
      | Some targets \<Rightarrow> resolveTargets pf st includeDeclaration targets acc)"

text \<open>
  The closure \<open>findReferences\<close> of \<open>references\<close>. \<open>matchingLoop\<close> is the inner loop over
  the monikers that share a key: the moniker itself (by id) is skipped, as is a moniker
  without vertex or without reference result; the reference result of every other one
  is resolved into the same accumulators.
\<close>

fun matchingLoop ::
  "Platform \<Rightarrow> Store \<Rightarrow> bool \<Rightarrow> Vertex \<Rightarrow> Vertex list \<Rightarrow> Refs \<Rightarrow> (Error + Refs) option" where
  "matchingLoop pf st inc moniker [] acc = Some (Inr acc)"
| "matchingLoop pf st inc moniker (matchingMoniker # rest) acc =
     (if vid moniker = vid matchingMoniker then matchingLoop pf st inc moniker rest acc
      else (case findVertexForMoniker st matchingMoniker of
              None \<Rightarrow> matchingLoop pf st inc moniker rest acc
            | Some vertex \<Rightarrow>
                (case getResultForId st (vid vertex) (out_references st) of
                   None \<Rightarrow> None
                 | Some (None, _) \<Rightarrow> matchingLoop pf st inc moniker rest acc
                 | Some (Some referenceResult, _) \<Rightarrow>
                     (case resolveReferenceResult pf st inc referenceResult acc of
                        None \<Rightarrow> None
                      | Some (Inl e) \<Rightarrow> Some (Inl e)
                      | Some (Inr acc') \<Rightarrow> matchingLoop pf st inc moniker rest acc'))))"

text \<open>
  \<open>monikersLoop\<close> is the outer \<^verbatim>\<open>for ... of\<close> loop over \<open>monikers\<close>. The array grows while
  the loop runs (resolving a result pushes its \<open>referenceLinks\<close>), and the iterator
  visits the new elements: the loop runs on the index \<open>n\<close>.
\<close>

partial_function (option) monikersLoop ::
  "Platform \<Rightarrow> Store \<Rightarrow> bool \<Rightarrow> nat \<Rightarrow> Refs \<Rightarrow> (Error + Refs) option" where
  "monikersLoop pf st inc n acc =
     (if n < length (monikers acc)
      then (let moniker = monikers acc ! n in
            if monikerKey moniker \<in> set (dedupMonikers acc)
            then monikersLoop pf st inc (n + 1) acc
            else (let acc1 = acc\<lparr>dedupMonikers := dedupMonikers acc @ [monikerKey moniker]\<rparr> in
                  case (case monikerKey moniker of
                          None \<Rightarrow> None
                        | Some k \<Rightarrow> indices_monikers st k) of
                    None \<Rightarrow> monikersLoop pf st inc (n + 1) acc1
                  | Some matchingMonikers \<Rightarrow>
                      Option.bind (matchingLoop pf st inc moniker matchingMonikers acc1)
                        (\<lambda>r. case r of
                               Inl e \<Rightarrow> Some (Inl e)
                             | Inr acc2 \<Rightarrow> monikersLoop pf st inc (n + 1) acc2)))
      else Some (Inr acc))"


text \<open>
  \<open>findReferences\<close> for the range under the position, from empty accumulators, and
  \<open>references\<close>, which returns \<open>result\<close>. \<open>referencesRun\<close> is \<open>references\<close> with all four
  accumulators as they are when it returns.
\<close>

definition emptyRefs :: Refs where
  "emptyRefs = \<lparr>locations = [], dedupRanges = [], monikers = [], dedupMonikers = []\<rparr>"

definition findReferences ::
  "Platform \<Rightarrow> Store \<Rightarrow> bool \<Rightarrow> Refs \<Rightarrow> Vertex \<Rightarrow> (Error + Refs) option" where
  "findReferences pf st inc acc rng =
     (case getResultForId st (vid rng) (out_references st) of
        None \<Rightarrow> None
      | Some (None, anchorId) \<Rightarrow> Some (Inr acc)
      | Some (Some referenceResult, anchorId) \<Rightarrow>
          (case resolveReferenceResult pf st inc referenceResult (acc\<lparr>monikers := []\<rparr>) of
             None \<Rightarrow> None
           | Some (Inl e) \<Rightarrow> Some (Inl e)
           | Some (Inr acc1) \<Rightarrow>
               (case findMonikers st (monikers acc1) anchorId of
                  None \<Rightarrow> None
                | Some ms \<Rightarrow> monikersLoop pf st inc 0 (acc1\<lparr>monikers := ms\<rparr>))))"

definition referencesRun ::
  "Platform \<Rightarrow> Store \<Rightarrow> string \<Rightarrow> Position \<Rightarrow> bool \<Rightarrow> (Error + Refs option) option" where
  "referencesRun pf st u position includeDeclaration =
     (case findRangeFromPosition st (toDatabase pf u) position of
        Inl e \<Rightarrow> Some (Inl e)
      | Inr None \<Rightarrow> Some (Inr None)
      | Inr (Some rng) \<Rightarrow>
          (case findReferences pf st includeDeclaration emptyRefs rng of
             None \<Rightarrow> None
           | Some (Inl e) \<Rightarrow> Some (Inl e)
           | Some (Inr acc) \<Rightarrow> Some (Inr (Some acc))))"

definition references ::
  "Platform \<Rightarrow> Store \<Rightarrow> string \<Rightarrow> Position \<Rightarrow> bool \<Rightarrow> (Error + Location list option) option" where
  "references pf st u position includeDeclaration =
     map_option (map_sum id (map_option locations))
       (referencesRun pf st u position includeDeclaration)"

text \<open>
  \<open>toDocumentSymbol\<close>. The range of the node is looked up in \<open>vertices.ranges\<close> (reading
  \<open>tag\<close> of \<^verbatim>\<open>undefined\<close> throws a TypeError); without a declaration or definition tag
  the node converts to \<^verbatim>\<open>undefined\<close>; the children are converted when there are any,
  and those that convert are kept. \<open>tag.detail || ''\<close> is the empty string without a
  detail.
\<close>

fun declarationTag :: "Vertex \<Rightarrow> (string \<times> string \<times> nat \<times> LspRange) option" where
  "declarationTag (RangeV _ _ (Some (DeclarationTag text kind fullRange detail))) =
     Some (text, (case detail of None \<Rightarrow> [] | Some d \<Rightarrow> d), kind, fullRange)"
| "declarationTag (RangeV _ _ (Some (DefinitionTag text kind fullRange detail))) =
     Some (text, (case detail of None \<Rightarrow> [] | Some d \<Rightarrow> d), kind, fullRange)"
| "declarationTag _ = None"

fun toDocumentSymbol ::
    "Platform \<Rightarrow> Store \<Rightarrow> RangeBasedDocumentSymbol \<Rightarrow> Error + DocumentSymbol option"
  and toDocumentSymbols ::
    "Platform \<Rightarrow> Store \<Rightarrow> RangeBasedDocumentSymbol list \<Rightarrow> Error + DocumentSymbol list" where
  "toDocumentSymbol pf st (RangeBasedDocumentSymbol i children) =
     (case vertices_ranges st i of
        None \<Rightarrow> Inl TypeError
      | Some rng \<Rightarrow>
          (case declarationTag rng of
             None \<Rightarrow> Inr None
           | Some (text, detail, kind, fullRange) \<Rightarrow>
               if children \<noteq> []
               then (case toDocumentSymbols pf st children of
                       Inl e \<Rightarrow> Inl e
                     | Inr cs \<Rightarrow>
                         Inr (Some (DocumentSymbol text detail kind fullRange (asRange pf rng) (Some cs))))
               else Inr (Some (DocumentSymbol text detail kind fullRange (asRange pf rng) None))))"
| "toDocumentSymbols pf st [] = Inr []"
| "toDocumentSymbols pf st (c # cs) =
     (case toDocumentSymbol pf st c of
        Inl e \<Rightarrow> Inl e
      | Inr converted \<Rightarrow>
          (case toDocumentSymbols pf st cs of
             Inl e \<Rightarrow> Inl e
           | Inr rest \<Rightarrow> Inr (case converted of None \<Rightarrow> rest | Some d \<Rightarrow> d # rest)))"

text \<open>
  \<open>documentSymbols\<close>. A vertex that is no document symbol result has no \<open>result\<close> array
  (reading its length throws), except a folding range result, whose array holds no
  symbols.
\<close>

definition documentSymbols ::
  "Platform \<Rightarrow> Store \<Rightarrow> string \<Rightarrow> Error + DocumentSymbol list option" where
  "documentSymbols pf st u =
     (case indices_documents st (toDatabase pf u) of
        None \<Rightarrow> Inr None
      | Some val \<Rightarrow>
          (case documents val of
             [] \<Rightarrow> Inl TypeError
           | d # _ \<Rightarrow>
               (case out_documentSymbol st (vid d) of
                  None \<Rightarrow> Inr None
                | Some (DocumentSymbolResultV _ (FullSymbols ds)) \<Rightarrow>
                    if length ds = 0 then Inr None else Inr (Some ds)
                | Some (DocumentSymbolResultV _ (RangeBasedSymbols rs)) \<Rightarrow>
                    if length rs = 0 then Inr None
                    else (case toDocumentSymbols pf st rs of
                            Inl e \<Rightarrow> Inl e
                          | Inr res \<Rightarrow> Inr (Some res))
                | Some (FoldingRangeResultV _ fs) \<Rightarrow>
                    if length fs = 0 then Inr None else Inl TypeError
                | Some _ \<Rightarrow> Inl TypeError)))"

section \<open>The properties in the words of the specification\<close>

text \<open>
  \<open>rangeAtPosition\<close> as the specification describes it: the canonical (first
  registered) document of the uri; among its directly contained ranges those whose span
  contains the position; among the matches the first one, replaced by each later match
  that nests inside the current choice. A span contains a position that lies between
  its start and its end: on the start line at or after the start character, on the end
  line at or before the end character, on every line strictly between at any character.
\<close>

definition positionInSpan :: "LspRange \<Rightarrow> Position \<Rightarrow> bool" where
  "positionInSpan sp p =
     (line (start sp) \<le> line p \<and> line p \<le> line (finish sp) \<and>
      (if line p = line (start sp) then character (start sp) \<le> character p else True) \<and>
      (if line p = line (finish sp) then character p \<le> character (finish sp) else True))"

definition positionLe :: "Position \<Rightarrow> Position \<Rightarrow> bool" where
  "positionLe a b = (line a < line b \<or> (line a = line b \<and> character a \<le> character b))"

text \<open>\<open>inner\<close> nests inside \<open>outer\<close>: it starts at or after the start of \<open>outer\<close> and ends at or
  before its end, in the order of positions (line, then character).\<close>

definition nestsInside :: "LspRange \<Rightarrow> LspRange \<Rightarrow> bool" where
  "nestsInside inner outer =
     (positionLe (start outer) (start inner) \<and> positionLe (finish inner) (finish outer))"

fun matchesPosition :: "Position \<Rightarrow> Vertex \<Rightarrow> bool" where
  "matchesPosition p (RangeV _ sp _) = positionInSpan sp p"
| "matchesPosition p _ = False"

fun spanNestsInside :: "Vertex \<Rightarrow> Vertex \<Rightarrow> bool" where
  "spanNestsInside (RangeV _ inner _) (RangeV _ outer _) = nestsInside inner outer"
| "spanNestsInside _ _ = False"

fun mostSpecific :: "Vertex \<Rightarrow> Vertex list \<Rightarrow> Vertex" where
  "mostSpecific current [] = current"
| "mostSpecific current (m # ms) =
     (if spanNestsInside m current then mostSpecific m ms else mostSpecific current ms)"

definition rangeAtPosition :: "Store \<Rightarrow> string \<Rightarrow> Position \<Rightarrow> Error + Vertex option" where
  "rangeAtPosition st u p =
     (case indices_documents st u of
        None \<Rightarrow> Inr None
      | Some bucket \<Rightarrow>
          (case documents bucket of
             [] \<Rightarrow> Inl TypeError
           | canonical # _ \<Rightarrow>
               (case filter (matchesPosition p)
                       (case out_contains st (vid canonical) of None \<Rightarrow> [] | Some cs \<Rightarrow> cs) of
                  [] \<Rightarrow> Inr None
                | m # ms \<Rightarrow> Inr (Some (mostSpecific m ms)))))"

text \<open>
  The vocabulary of the claims about \<open>references\<close>.
  \<^item> \<open>contributedBy pf st loc i\<close>: \<open>loc\<close> is the location of a range with id \<open>i\<close>, built from
    the document that contains it.
  \<^item> \<open>itemsOf st r\<close>: the item targets of the result \<open>r\<close> (none when \<open>item\<close> is undefined).
  \<^item> \<open>expands st inc ts r\<close>: expanding the targets \<open>ts\<close> contributes the range \<open>r\<close>: it is
    a \<open>references\<close> target, or a \<open>declarations\<close> or \<open>definitions\<close> target when declarations
    are included, of \<open>ts\<close> or of a reference result nested in \<open>ts\<close>.
  \<^item> \<open>links st ts m\<close>: expanding \<open>ts\<close> pushes the moniker \<open>m\<close>: it is a \<open>referenceLinks\<close>
    target of \<open>ts\<close> or of a reference result nested in \<open>ts\<close>.
\<close>

definition contributedBy :: "Platform \<Rightarrow> Store \<Rightarrow> Location \<Rightarrow> Id \<Rightarrow> bool" where
  "contributedBy pf st loc i =
     (\<exists>val document. vid val = i \<and> in_contains st i = Some document \<and>
        loc = Location (fromDatabase pf (vertexUri document)) (asRange pf val))"


inductive expands :: "Store \<Rightarrow> bool \<Rightarrow> ItemTarget list \<Rightarrow> Vertex \<Rightarrow> bool"
  for st :: Store and inc :: bool where
  expands_declaration: "DeclarationsTarget r \<in> set ts \<Longrightarrow> inc \<Longrightarrow> expands st inc ts r"
| expands_definition: "DefinitionsTarget r \<in> set ts \<Longrightarrow> inc \<Longrightarrow> expands st inc ts r"
| expands_reference: "ReferencesTarget r \<in> set ts \<Longrightarrow> expands st inc ts r"
| expands_nested:
    "ReferenceResultsTarget rr \<in> set ts \<Longrightarrow> item st rr = Some ts' \<Longrightarrow>
     expands st inc ts' r \<Longrightarrow> expands st inc ts r"

inductive links :: "Store \<Rightarrow> ItemTarget list \<Rightarrow> Vertex \<Rightarrow> bool"
  for st :: Store where
  links_direct: "ReferenceLinksTarget m \<in> set ts \<Longrightarrow> links st ts m"
| links_nested:
    "ReferenceResultsTarget rr \<in> set ts \<Longrightarrow> item st rr = Some ts' \<Longrightarrow>
     links st ts' m \<Longrightarrow> links st ts m"


definition refsInvariant :: "Platform \<Rightarrow> Store \<Rightarrow> Refs \<Rightarrow> bool" where
  "refsInvariant pf st acc =
     (distinct (dedupRanges acc) \<and>
      list_all2 (contributedBy pf st) (locations acc) (dedupRanges acc))"

definition grows :: "Platform \<Rightarrow> Store \<Rightarrow> Refs \<Rightarrow> Refs \<Rightarrow> bool" where
  "grows pf st acc acc' =
     (set (dedupRanges acc) \<subseteq> set (dedupRanges acc') \<and>
      (\<exists>new. monikers acc' = monikers acc @ new) \<and>
      (refsInvariant pf st acc \<longrightarrow> refsInvariant pf st acc'))"

definition resolves ::
  "Platform \<Rightarrow> Store \<Rightarrow> bool \<Rightarrow> ItemTarget list \<Rightarrow> Refs \<Rightarrow> Refs \<Rightarrow> bool" where
  "resolves pf st inc ts acc acc' =
     (set (dedupRanges acc) \<subseteq> set (dedupRanges acc') \<and>
      dedupMonikers acc' = dedupMonikers acc \<and>
      (\<exists>new. monikers acc' = monikers acc @ new \<and> (\<forall>m \<in> set new. links st ts m)) \<and>
      (refsInvariant pf st acc \<longrightarrow> refsInvariant pf st acc') \<and>
      (\<forall>r. expands st inc ts r \<longrightarrow> vid r \<in> set (dedupRanges acc')))"

text \<open>The ids of the vertices that a list of lines ingests, and the endpoints of an
  edge: \<open>outV\<close>, and \<open>inV\<close> or the elements of \<open>inVs\<close>.\<close>

definition vertexIds :: "Platform \<Rightarrow> string list \<Rightarrow> Id set" where
  "vertexIds pf lns = {i. \<exists>l v. l \<in> set lns \<and> l \<noteq> [] \<and> jsonParse pf l = Some (JVertex v) \<and> vid v = i}"

fun edgeOut :: "Edge \<Rightarrow> Id" where
  "edgeOut (E11 _ outV _ _) = outV"
| "edgeOut (E1N _ outV _ _) = outV"

fun edgeIns :: "Edge \<Rightarrow> Id list" where
  "edgeIns (E11 _ _ inV _) = [inV]"
| "edgeIns (E1N _ _ inVs _) = inVs"

section \<open>A sample index\<close>

text \<open>
  A small index export, each line with what \<^verbatim>\<open>JSON.parse\<close> returns for it: two documents
  \<open>x.ts\<close> and \<open>y.ts\<close>; in \<open>x.ts\<close> the definition range 5 of a symbol, a range 17 over lines
  0 to 10 and a range 14 over lines 2 to 4 inside it; in \<open>y.ts\<close> the range 6 of a second
  symbol. Range 5 reaches its result set 7 and range 6 its result set 8 in one step;
  the two result sets carry the reference results 9 and 10 and the monikers 11 and 12,
  which share scheme and identifier. Reference result 10 holds range 6 and, nested,
  reference result 9. Range 14 reaches the hover result 13 in two steps, through the
  result sets 15 and 16. Document 3 has the document symbol result 18 with one entry,
  document 4 the document symbol result 19 with none.
\<close>

definition sampleHeader :: "(string \<times> JsonValue) list" where
  \<open>sampleHeader =
    [(''{"id":1,"type":"vertex","label":"metaData","version":"0.5.0-next.2"}'',
        JVertex (MetaDataV (IdNum 1) ''0.5.0-next.2'')),
     (''{"id":2,"type":"vertex","label":"group","rootUri":"file:///w"}'',
        JVertex (GroupV (IdNum 2) (Some ''file:///w'')))]\<close>

definition sampleGraph :: "(string \<times> JsonValue) list" where
  \<open>sampleGraph =
    [(''{"id":3,"type":"vertex","label":"document","uri":"file:///w/x.ts","contents":"let a"}'',
        JVertex (DocumentV (IdNum 3) ''file:///w/x.ts'' (Some ''let a''))),
     (''{"id":4,"type":"vertex","label":"document","uri":"file:///w/y.ts"}'',
        JVertex (DocumentV (IdNum 4) ''file:///w/y.ts'' None)),
     (''{"id":5,"type":"vertex","label":"range","start":{"line":0,"character":4},"end":{"line":0,"character":5},"tag":{"type":"definition","text":"a","kind":13,"fullRange":{"start":{"line":0,"character":0},"end":{"line":0,"character":9}}}}'',
        JVertex (RangeV (IdNum 5) \<lparr>start = \<lparr>line = 0, character = 4\<rparr>, finish = \<lparr>line = 0, character = 5\<rparr>\<rparr> (Some (DefinitionTag ''a'' 13 \<lparr>start = \<lparr>line = 0, character = 0\<rparr>, finish = \<lparr>line = 0, character = 9\<rparr>\<rparr> None)))),
     (''{"id":6,"type":"vertex","label":"range","start":{"line":1,"character":0},"end":{"line":1,"character":1}}'',
        JVertex (RangeV (IdNum 6) \<lparr>start = \<lparr>line = 1, character = 0\<rparr>, finish = \<lparr>line = 1, character = 1\<rparr>\<rparr> None)),
     (''{"id":7,"type":"vertex","label":"resultSet"}'',
        JVertex (ResultSetV (IdNum 7))),
     (''{"id":8,"type":"vertex","label":"resultSet"}'',
        JVertex (ResultSetV (IdNum 8))),
     (''{"id":9,"type":"vertex","label":"referenceResult"}'',
        JVertex (ReferenceResultV (IdNum 9))),
     (''{"id":10,"type":"vertex","label":"referenceResult"}'',
        JVertex (ReferenceResultV (IdNum 10))),
     (''{"id":11,"type":"vertex","label":"moniker","scheme":"tsc","identifier":"a","kind":"export"}'',
        JVertex (MonikerV (IdNum 11) ''tsc'' ''a'' (Some MkExport) None)),
     (''{"id":12,"type":"vertex","label":"moniker","scheme":"tsc","identifier":"a","kind":"import"}'',
        JVertex (MonikerV (IdNum 12) ''tsc'' ''a'' (Some MkImport) None)),
     (''{"id":13,"type":"vertex","label":"hoverResult","result":{"contents":"let a: number"}}'',
        JVertex (HoverResultV (IdNum 13) ''let a: number'' None)),
     (''{"id":14,"type":"vertex","label":"range","start":{"line":2,"character":0},"end":{"line":4,"character":1}}'',
        JVertex (RangeV (IdNum 14) \<lparr>start = \<lparr>line = 2, character = 0\<rparr>, finish = \<lparr>line = 4, character = 1\<rparr>\<rparr> None)),
     (''{"id":15,"type":"vertex","label":"resultSet"}'',
        JVertex (ResultSetV (IdNum 15))),
     (''{"id":16,"type":"vertex","label":"resultSet"}'',
        JVertex (ResultSetV (IdNum 16))),
     (''{"id":17,"type":"vertex","label":"range","start":{"line":0,"character":0},"end":{"line":10,"character":0}}'',
        JVertex (RangeV (IdNum 17) \<lparr>start = \<lparr>line = 0, character = 0\<rparr>, finish = \<lparr>line = 10, character = 0\<rparr>\<rparr> None)),
     (''{"id":18,"type":"vertex","label":"documentSymbolResult","result":[{"id":5}]}'',
        JVertex (DocumentSymbolResultV (IdNum 18) (RangeBasedSymbols [RangeBasedDocumentSymbol (IdNum 5) []]))),
     (''{"id":19,"type":"vertex","label":"documentSymbolResult","result":[]}'',
        JVertex (DocumentSymbolResultV (IdNum 19) (RangeBasedSymbols []))),
     (''{"id":20,"type":"edge","label":"contains","outV":3,"inVs":[5,17,14]}'',
        JEdge (E1N EL_contains (IdNum 3) [IdNum 5, IdNum 17, IdNum 14] None)),
     (''{"id":21,"type":"edge","label":"contains","outV":4,"inVs":[6]}'',
        JEdge (E1N EL_contains (IdNum 4) [IdNum 6] None)),
     (''{"id":22,"type":"edge","label":"next","outV":5,"inV":7}'',
        JEdge (E11 EL_next (IdNum 5) (IdNum 7) None)),
     (''{"id":23,"type":"edge","label":"next","outV":6,"inV":8}'',
        JEdge (E11 EL_next (IdNum 6) (IdNum 8) None)),
     (''{"id":24,"type":"edge","label":"textDocument/references","outV":7,"inV":9}'',
        JEdge (E11 EL_textDocument_references (IdNum 7) (IdNum 9) None)),
     (''{"id":25,"type":"edge","label":"textDocument/references","outV":8,"inV":10}'',
        JEdge (E11 EL_textDocument_references (IdNum 8) (IdNum 10) None)),
     (''{"id":26,"type":"edge","label":"moniker","outV":7,"inV":11}'',
        JEdge (E11 EL_moniker (IdNum 7) (IdNum 11) None)),
     (''{"id":27,"type":"edge","label":"moniker","outV":8,"inV":12}'',
        JEdge (E11 EL_moniker (IdNum 8) (IdNum 12) None)),
     (''{"id":28,"type":"edge","label":"item","outV":9,"inVs":[5],"property":"references"}'',
        JEdge (E1N EL_item (IdNum 9) [IdNum 5] (Some IP_references))),
     (''{"id":29,"type":"edge","label":"item","outV":10,"inVs":[6],"property":"references"}'',
        JEdge (E1N EL_item (IdNum 10) [IdNum 6] (Some IP_references))),
     (''{"id":30,"type":"edge","label":"item","outV":10,"inVs":[9],"property":"referenceResults"}'',
        JEdge (E1N EL_item (IdNum 10) [IdNum 9] (Some IP_referenceResults))),
     (''{"id":31,"type":"edge","label":"next","outV":14,"inV":15}'',
        JEdge (E11 EL_next (IdNum 14) (IdNum 15) None)),
     (''{"id":32,"type":"edge","label":"next","outV":15,"inV":16}'',
        JEdge (E11 EL_next (IdNum 15) (IdNum 16) None)),
     (''{"id":33,"type":"edge","label":"textDocument/hover","outV":16,"inV":13}'',
        JEdge (E11 EL_textDocument_hover (IdNum 16) (IdNum 13) None)),
     (''{"id":34,"type":"edge","label":"textDocument/documentSymbol","outV":3,"inV":18}'',
        JEdge (E11 EL_textDocument_documentSymbol (IdNum 3) (IdNum 18) None)),
     (''{"id":35,"type":"edge","label":"textDocument/documentSymbol","outV":4,"inV":19}'',
        JEdge (E11 EL_textDocument_documentSymbol (IdNum 4) (IdNum 19) None))]\<close>

text \<open>The metaData line of the header with version 0.5.0.\<close>

definition sampleMeta050 :: "string \<times> JsonValue" where
  \<open>sampleMeta050 =
     (''{"id":1,"type":"vertex","label":"metaData","version":"0.5.0"}'',
      JVertex (MetaDataV (IdNum 1) ''0.5.0''))\<close>

text \<open>A line that is valid JSON and has no \<open>type\<close>.\<close>

definition sampleUntyped :: "string \<times> JsonValue" where
  \<open>sampleUntyped =
     (''{}'',
      JOther)\<close>

text \<open>An item edge from the unknown id 99 to no target.\<close>

definition sampleEmptyEdge :: "string \<times> JsonValue" where
  \<open>sampleEmptyEdge =
     (''{"id":40,"type":"edge","label":"item","outV":99,"inVs":[],"property":"references"}'',
      JEdge (E1N EL_item (IdNum 99) [] (Some IP_references)))\<close>

text \<open>A second document vertex for the uri of document 3, with other contents.\<close>

definition sampleSecondDocument :: "string \<times> JsonValue" where
  \<open>sampleSecondDocument =
     (''{"id":41,"type":"vertex","label":"document","uri":"file:///w/x.ts","contents":"let b"}'',
      JVertex (DocumentV (IdNum 41) ''file:///w/x.ts'' (Some ''let b'')))\<close>

text \<open>An item edge that links reference result 9 to moniker 12.\<close>

definition sampleLink :: "string \<times> JsonValue" where
  \<open>sampleLink =
     (''{"id":42,"type":"edge","label":"item","outV":9,"inVs":[12],"property":"referenceLinks"}'',
      JEdge (E1N EL_item (IdNum 9) [IdNum 12] (Some IP_referenceLinks)))\<close>

text \<open>
  The platform of the examples. \<open>sampleParse\<close> is \<^verbatim>\<open>JSON.parse\<close> on the lines above; any
  other line counts as a syntax error, which is what \<^verbatim>\<open>JSON.parse\<close> answers for the one
  other line the examples use, the truncated record \<^verbatim>\<open>{"id":\<close>. The digest is a stand-in
  that keeps different texts apart; the uri transformer is the identity; \<open>asRange\<close>
  copies the span of a range.
\<close>

definition sampleParse :: "string \<Rightarrow> JsonValue option" where
  "sampleParse =
     map_of (sampleHeader @ sampleGraph @
       [sampleMeta050, sampleUntyped, sampleEmptyEdge, sampleSecondDocument, sampleLink])"

definition samplePlatform :: Platform where
  "samplePlatform =
     \<lparr>jsonParse = sampleParse,
      uriParse = Some,
      md5 = (\<lambda>s. ''md5 of '' @ s),
      stringifyKey = (\<lambda>s i. s @ '':'' @ i),
      toDatabase = (\<lambda>u. u),
      fromDatabase = (\<lambda>u. case u of None \<Rightarrow> [] | Some s \<Rightarrow> s),
      asRange = (\<lambda>v. case v of
                   RangeV _ sp _ \<Rightarrow> sp
                 | _ \<Rightarrow> \<lparr>start = \<lparr>line = 0, character = 0\<rparr>,
                         finish = \<lparr>line = 0, character = 0\<rparr>\<rparr>)\<rparr>"

definition sampleStream :: "string list" where
  "sampleStream = map fst (sampleHeader @ sampleGraph)"

text \<open>The line handler over records that are parsed already: what \<open>processLines\<close> does
  on lines that are not empty and parse to these records (\<open>processLines_parsed\<close> below).\<close>

fun processElements :: "Platform \<Rightarrow> Store \<Rightarrow> JsonValue list \<Rightarrow> Error + Store" where
  "processElements pf st [] = Inr st"
| "processElements pf st (element # elements) =
     (case processElement pf st element of
        Inl e \<Rightarrow> Inl e
      | Inr st' \<Rightarrow> processElements pf st' elements)"

text \<open>The vertices of the sample as \<open>load\<close> stores them (the monikers with their keys).\<close>

abbreviation sampleDocX :: Vertex where
  "sampleDocX \<equiv> DocumentV (IdNum 3) ''file:///w/x.ts'' (Some ''let a'')"

abbreviation sampleDocY :: Vertex where
  "sampleDocY \<equiv> DocumentV (IdNum 4) ''file:///w/y.ts'' None"

abbreviation sampleRange5 :: Vertex where
  "sampleRange5 \<equiv>
     RangeV (IdNum 5)
       \<lparr>start = \<lparr>line = 0, character = 4\<rparr>, finish = \<lparr>line = 0, character = 5\<rparr>\<rparr>
       (Some (DefinitionTag ''a'' 13
          \<lparr>start = \<lparr>line = 0, character = 0\<rparr>, finish = \<lparr>line = 0, character = 9\<rparr>\<rparr> None))"

abbreviation sampleRange6 :: Vertex where
  "sampleRange6 \<equiv>
     RangeV (IdNum 6)
       \<lparr>start = \<lparr>line = 1, character = 0\<rparr>, finish = \<lparr>line = 1, character = 1\<rparr>\<rparr> None"

abbreviation sampleRange14 :: Vertex where
  "sampleRange14 \<equiv>
     RangeV (IdNum 14)
       \<lparr>start = \<lparr>line = 2, character = 0\<rparr>, finish = \<lparr>line = 4, character = 1\<rparr>\<rparr> None"

abbreviation sampleRange17 :: Vertex where
  "sampleRange17 \<equiv>
     RangeV (IdNum 17)
       \<lparr>start = \<lparr>line = 0, character = 0\<rparr>, finish = \<lparr>line = 10, character = 0\<rparr>\<rparr> None"

abbreviation sampleMoniker11 :: Vertex where
  "sampleMoniker11 \<equiv> MonikerV (IdNum 11) ''tsc'' ''a'' (Some MkExport) (Some ''md5 of tsc:a'')"

abbreviation sampleMoniker12 :: Vertex where
  "sampleMoniker12 \<equiv> MonikerV (IdNum 12) ''tsc'' ''a'' (Some MkImport) (Some ''md5 of tsc:a'')"

abbreviation sampleHover13 :: Vertex where
  "sampleHover13 \<equiv> HoverResultV (IdNum 13) ''let a: number'' None"

abbreviation sampleSymbols18 :: Vertex where
  "sampleSymbols18 \<equiv>
     DocumentSymbolResultV (IdNum 18) (RangeBasedSymbols [RangeBasedDocumentSymbol (IdNum 5) []])"

abbreviation sampleSymbols19 :: Vertex where
  "sampleSymbols19 \<equiv> DocumentSymbolResultV (IdNum 19) (RangeBasedSymbols [])"

text \<open>The store that \<open>load\<close> builds from the sample (\<open>sample_loaded\<close> below).\<close>

definition sampleStore :: Store where
  "sampleStore =
     \<lparr>version = Some ''0.5.0-next.2'', projectRoot = Some ''file:///w'',
      activeGroup = None, activeProject = None,
      vertices_all =
        [IdNum 1 \<mapsto> MetaDataV (IdNum 1) ''0.5.0-next.2'',
         IdNum 2 \<mapsto> GroupV (IdNum 2) (Some ''file:///w''),
         IdNum 3 \<mapsto> sampleDocX, IdNum 4 \<mapsto> sampleDocY,
         IdNum 5 \<mapsto> sampleRange5, IdNum 6 \<mapsto> sampleRange6,
         IdNum 7 \<mapsto> ResultSetV (IdNum 7), IdNum 8 \<mapsto> ResultSetV (IdNum 8),
         IdNum 9 \<mapsto> ReferenceResultV (IdNum 9),
         IdNum 10 \<mapsto> ReferenceResultV (IdNum 10),
         IdNum 11 \<mapsto> sampleMoniker11, IdNum 12 \<mapsto> sampleMoniker12,
         IdNum 13 \<mapsto> sampleHover13, IdNum 14 \<mapsto> sampleRange14,
         IdNum 15 \<mapsto> ResultSetV (IdNum 15), IdNum 16 \<mapsto> ResultSetV (IdNum 16),
         IdNum 17 \<mapsto> sampleRange17,
         IdNum 18 \<mapsto> sampleSymbols18, IdNum 19 \<mapsto> sampleSymbols19],
      vertices_projects = Map.empty,
      vertices_documents = [IdNum 3 \<mapsto> sampleDocX, IdNum 4 \<mapsto> sampleDocY],
      vertices_ranges =
        [IdNum 5 \<mapsto> sampleRange5, IdNum 6 \<mapsto> sampleRange6,
         IdNum 14 \<mapsto> sampleRange14, IdNum 17 \<mapsto> sampleRange17],
      indices_monikers = [''md5 of tsc:a'' \<mapsto> [sampleMoniker11, sampleMoniker12]],
      indices_contents =
        [''md5 of let a'' \<mapsto> ''let a'',
         ''md5 of No content provided.'' \<mapsto> ''No content provided.''],
      indices_documents =
        [''file:///w/x.ts'' \<mapsto> \<lparr>hash = ''md5 of let a'', documents = [sampleDocX]\<rparr>,
         ''file:///w/y.ts'' \<mapsto>
           \<lparr>hash = ''md5 of No content provided.'', documents = [sampleDocY]\<rparr>],
      out_contains =
        [IdNum 3 \<mapsto> [sampleRange5, sampleRange17, sampleRange14],
         IdNum 4 \<mapsto> [sampleRange6]],
      out_item =
        [IdNum 9 \<mapsto> [ReferencesTarget sampleRange5],
         IdNum 10 \<mapsto>
           [ReferencesTarget sampleRange6, ReferenceResultsTarget (ReferenceResultV (IdNum 9))]],
      out_next =
        [IdNum 5 \<mapsto> ResultSetV (IdNum 7), IdNum 6 \<mapsto> ResultSetV (IdNum 8),
         IdNum 14 \<mapsto> ResultSetV (IdNum 15), IdNum 15 \<mapsto> ResultSetV (IdNum 16)],
      out_moniker = [IdNum 7 \<mapsto> sampleMoniker11, IdNum 8 \<mapsto> sampleMoniker12],
      out_documentSymbol = [IdNum 3 \<mapsto> sampleSymbols18, IdNum 4 \<mapsto> sampleSymbols19],
      out_foldingRange = Map.empty, out_documentLink = Map.empty,
      out_diagnostic = Map.empty, out_declaration = Map.empty,
      out_definition = Map.empty, out_typeDefinition = Map.empty,
      out_hover = [IdNum 16 \<mapsto> sampleHover13],
      out_references =
        [IdNum 7 \<mapsto> ReferenceResultV (IdNum 9), IdNum 8 \<mapsto> ReferenceResultV (IdNum 10)],
      out_implementation = Map.empty,
      in_contains =
        [IdNum 5 \<mapsto> sampleDocX, IdNum 17 \<mapsto> sampleDocX, IdNum 14 \<mapsto> sampleDocX,
         IdNum 6 \<mapsto> sampleDocY],
      in_previous =
        [IdNum 7 \<mapsto> sampleRange5, IdNum 8 \<mapsto> sampleRange6,
         IdNum 15 \<mapsto> sampleRange14, IdNum 16 \<mapsto> ResultSetV (IdNum 15)],
      in_moniker = [IdNum 11 \<mapsto> ResultSetV (IdNum 7), IdNum 12 \<mapsto> ResultSetV (IdNum 8)],
      console = []\<rparr>"


section \<open>Facts about the sample\<close>

lemma sampleParse_table:
  "list_all (\<lambda>(l, v). l \<noteq> [] \<and> sampleParse l = Some v)
     (sampleHeader @ sampleGraph @
       [sampleMeta050, sampleUntyped, sampleEmptyEdge, sampleSecondDocument, sampleLink])"
  by code_simp

lemmas sampleParse_simps =
  sampleParse_table[unfolded sampleHeader_def sampleGraph_def sampleMeta050_def sampleUntyped_def
    sampleEmptyEdge_def sampleSecondDocument_def sampleLink_def append.simps list.pred_inject
    prod.case]

lemma sampleParse_truncated: \<open>sampleParse ''{"id":'' = None\<close>
  by code_simp

lemma processLines_parsed:
  "list_all (\<lambda>(l, v). l \<noteq> [] \<and> jsonParse pf l = Some v) tbl \<Longrightarrow>
   processLines pf st (map fst tbl) = processElements pf st (map snd tbl)"
  by (induction tbl arbitrary: st) (auto simp: processLine_def split: sum.splits)

lemmas sample_lines =
  sampleStream_def sampleHeader_def sampleGraph_def sampleMeta050_def sampleUntyped_def
  sampleEmptyEdge_def sampleSecondDocument_def sampleLink_def

lemmas samplePlatform_fields =
  arg_cong[OF samplePlatform_def, where f = jsonParse, simplified]
  arg_cong[OF samplePlatform_def, where f = uriParse, simplified]
  arg_cong[OF samplePlatform_def, where f = md5, simplified]
  arg_cong[OF samplePlatform_def, where f = stringifyKey, simplified]
  arg_cong[OF samplePlatform_def, where f = toDatabase, simplified]
  arg_cong[OF samplePlatform_def, where f = fromDatabase, simplified]
  arg_cong[OF samplePlatform_def, where f = asRange, simplified]

lemmas ingest_defs =
  samplePlatform_fields processLine_def processVertex_def emptyStore_def doProcessEdge_def
  doProcessDocument_def Let_def

lemmas semver_defs =
  semverParse_def satisfiesRange_def compareSemVer_def compareMain_def comparePre_def
  compareNat_def lowerBound_def upperBound_def numericIdentifier_def prereleaseIdentifier_def
  buildIdentifier_def numberOf_def digitValue_def isDigit_def isIdentifierChar_def

section \<open>load: lines, malformed lines and empty lines\<close>

lemma processLine_empty: "processLine pf st [] = Inr st"
  by (simp add: processLine_def)

lemma processLines_append:
  "processLines pf st (xs @ ys) =
     (case processLines pf st xs of Inl e \<Rightarrow> Inl e | Inr st' \<Rightarrow> processLines pf st' ys)"
  by (induction xs arbitrary: st) (auto split: sum.splits)

lemma processLines_filter:
  "processLines pf st (filter (\<lambda>l. l \<noteq> []) lns) = processLines pf st lns"
  by (induction lns arbitrary: st) (auto simp: processLine_empty split: sum.splits)

lemma processLines_failing_line:
  assumes "l \<in> set lns" and "\<And>st'. isl (processLine pf st' l)"
  shows "isl (processLines pf st lns)"
  using assms(1)
proof (induction lns arbitrary: st)
  case Nil
  then show ?case by simp
next
  case (Cons x xs)
  show ?case
  proof (cases "processLine pf st x")
    case (Inl e)
    then show ?thesis by simp
  next
    case (Inr st')
    show ?thesis
    proof (cases "x = l")
      case True
      with assms(2)[of st] Inr show ?thesis by simp
    next
      case False
      with Cons.prems have "l \<in> set xs" by simp
      from Cons.IH[OF this, of st'] Inr show ?thesis by simp
    qed
  qed
qed

lemma load_fails_if_lines_fail: "isl (processLines pf emptyStore lns) \<Longrightarrow> isl (load pf lns)"
  by (auto simp: load_def split: sum.splits)

lemma load_at_line:
  "processLines pf emptyStore pre = Inr st \<Longrightarrow> processLine pf st l = Inl e \<Longrightarrow>
   load pf (pre @ l # post) = Inl e"
  by (simp add: load_def processLines_append)

lemma load_skip_line:
  "(\<And>st. processLine pf st l = Inr st) \<Longrightarrow> load pf (pre @ l # post) = load pf (pre @ post)"
  by (simp add: load_def processLines_append split: sum.splits)

text \<open>The sample loads, to \<open>sampleStore\<close>; with the linking edge, to \<open>linkedStore\<close>.\<close>

lemma sample_table_graph:
  "list_all (\<lambda>(l, v). l \<noteq> [] \<and> jsonParse samplePlatform l = Some v) (sampleHeader @ sampleGraph)"
  using sampleParse_table by (simp add: samplePlatform_def)

lemma sample_lines_loaded: "processLines samplePlatform emptyStore sampleStream = Inr sampleStore"
  unfolding sampleStream_def processLines_parsed[OF sample_table_graph]
  by (simp add: sampleHeader_def sampleGraph_def sampleStore_def ingest_defs)

lemma sample_loaded: "load samplePlatform sampleStream = Inr sampleStore"
  by (simp add: load_def sample_lines_loaded onClose_def sampleStore_def semver_defs)

lemmas sampleStore_fields =
  arg_cong[OF sampleStore_def, where f = version, simplified]
  arg_cong[OF sampleStore_def, where f = projectRoot, simplified]
  arg_cong[OF sampleStore_def, where f = vertices_all, simplified]
  arg_cong[OF sampleStore_def, where f = vertices_documents, simplified]
  arg_cong[OF sampleStore_def, where f = vertices_ranges, simplified]
  arg_cong[OF sampleStore_def, where f = indices_monikers, simplified]
  arg_cong[OF sampleStore_def, where f = indices_contents, simplified]
  arg_cong[OF sampleStore_def, where f = indices_documents, simplified]
  arg_cong[OF sampleStore_def, where f = out_contains, simplified]
  arg_cong[OF sampleStore_def, where f = out_item, simplified]
  arg_cong[OF sampleStore_def, where f = out_next, simplified]
  arg_cong[OF sampleStore_def, where f = out_moniker, simplified]
  arg_cong[OF sampleStore_def, where f = out_documentSymbol, simplified]
  arg_cong[OF sampleStore_def, where f = out_hover, simplified]
  arg_cong[OF sampleStore_def, where f = out_references, simplified]
  arg_cong[OF sampleStore_def, where f = in_contains, simplified]
  arg_cong[OF sampleStore_def, where f = in_previous, simplified]
  arg_cong[OF sampleStore_def, where f = in_moniker, simplified]
  arg_cong[OF sampleStore_def, where f = console, simplified]




text \<open>
  Claim C10. \<open>load\<close> skips empty input lines: a stream loads to the same result (the same
  store, or the same rejection) as the stream with its empty lines removed, and an empty
  line is never handed to the parser, so it never causes a parse error. "Blank" is read
  as "empty", as in the first words of the claim: the handler tests \<^verbatim>\<open>line.length === 0\<close>,
  and a line of spaces is not empty.
\<close>

theorem load_skips_empty_lines:
  "load pf (filter (\<lambda>l. l \<noteq> []) lns) = load pf lns \<and> processLine pf st [] = Inr st"
  by (simp add: load_def processLines_filter processLine_empty)

text \<open>
  Claim C8, as amended. A stream with a non-empty line that is not valid JSON never
  loads: \<open>load\<close> is rejected and returns no store; the rejection is the parse error of that
  line when no earlier line was rejected. A line that parses to \<^verbatim>\<open>null\<close> is rejected with a
  TypeError. A line that parses to a value without the vertex/edge discriminator is not
  rejected: the \<^verbatim>\<open>switch\<close> has no default case and the line is skipped, as if it were not
  in the stream.
\<close>

theorem malformed_line_aborts_load:
  "(l \<in> set lns \<and> l \<noteq> [] \<and> jsonParse pf l = None \<longrightarrow> isl (load pf lns)) \<and>
   (processLines pf emptyStore pre = Inr st \<and> l \<noteq> [] \<and> jsonParse pf l = None \<longrightarrow>
      load pf (pre @ l # post) = Inl (SyntaxError l)) \<and>
   (processLines pf emptyStore pre = Inr st \<and> l \<noteq> [] \<and> jsonParse pf l = Some JNull \<longrightarrow>
      load pf (pre @ l # post) = Inl TypeError) \<and>
   (jsonParse pf l = Some JOther \<longrightarrow> load pf (pre @ l # post) = load pf (pre @ post))"
proof (intro conjI impI)
  assume a: "l \<in> set lns \<and> l \<noteq> [] \<and> jsonParse pf l = None"
  then have "\<And>st'. isl (processLine pf st' l)" by (simp add: processLine_def)
  with a show "isl (load pf lns)"
    by (intro load_fails_if_lines_fail processLines_failing_line[of l]) auto
next
  assume "processLines pf emptyStore pre = Inr st \<and> l \<noteq> [] \<and> jsonParse pf l = None"
  then show "load pf (pre @ l # post) = Inl (SyntaxError l)"
    by (intro load_at_line[of pf pre st]) (auto simp: processLine_def)
next
  assume "processLines pf emptyStore pre = Inr st \<and> l \<noteq> [] \<and> jsonParse pf l = Some JNull"
  then show "load pf (pre @ l # post) = Inl TypeError"
    by (intro load_at_line[of pf pre st]) (auto simp: processLine_def)
next
  assume "jsonParse pf l = Some JOther"
  then show "load pf (pre @ l # post) = load pf (pre @ post)"
    by (intro load_skip_line) (auto simp: processLine_def)
qed

lemma header_lines:
  "processLines samplePlatform emptyStore (map fst sampleHeader) =
     Inr (emptyStore\<lparr>version := Some ''0.5.0-next.2'', projectRoot := Some ''file:///w'',
            vertices_all := [IdNum 1 \<mapsto> MetaDataV (IdNum 1) ''0.5.0-next.2'',
                             IdNum 2 \<mapsto> GroupV (IdNum 2) (Some ''file:///w'')]\<rparr>)"
  by (simp add: sample_lines sampleParse_simps ingest_defs)

text \<open>The theorem at the sample header followed by a truncated record, and by the record
  \<^verbatim>\<open>{}\<close>.\<close>

theorem malformed_line_witness:
  \<open>load samplePlatform (map fst sampleHeader @ [''{"id":'']) = Inl (SyntaxError ''{"id":'') \<and>
   isl (load samplePlatform (map fst sampleHeader @ [''{"id":''])) \<and>
   load samplePlatform (map fst sampleHeader @ [fst sampleUntyped]) =
     load samplePlatform (map fst sampleHeader)\<close>
  using malformed_line_aborts_load[of \<open>''{"id":''\<close> \<open>map fst sampleHeader @ [''{"id":'']\<close>
      samplePlatform "map fst sampleHeader" _ "[]"]
    malformed_line_aborts_load[of "fst sampleUntyped" _ samplePlatform "map fst sampleHeader" _ "[]"]
    header_lines sampleParse_truncated
  by (simp add: samplePlatform_fields sampleUntyped_def sampleParse_simps)

text \<open>
  Claim C8 as stated fails: the header followed by the line \<^verbatim>\<open>{}\<close>, a record that lacks the
  discriminator, loads.
\<close>

theorem untyped_record_counterexample:
  "jsonParse samplePlatform (fst sampleUntyped) = Some JOther \<and> fst sampleUntyped \<noteq> [] \<and>
   \<not> isl (load samplePlatform (map fst sampleHeader @ [fst sampleUntyped]))"
  by (simp add: load_def onClose_def sample_lines sampleParse_simps ingest_defs semver_defs)

section \<open>Edges and the vertices ingested before them\<close>

lemma doProcessDocument_vertices_all:
  "vertices_all (doProcessDocument pf st i u c) = vertices_all st"
  by (simp add: doProcessDocument_def Let_def)

lemma processVertex_vertices_all:
  "processVertex pf st v = Inr st' \<Longrightarrow> dom (vertices_all st') = insert (vid v) (dom (vertices_all st))"
  by (cases v)
     (auto simp: processVertex_def Let_def doProcessDocument_vertices_all
           split: option.splits if_splits EventScope.splits)

lemma doProcessEdge_vertices_all:
  "doProcessEdge st label outV inV property = Inr st' \<Longrightarrow> vertices_all st' = vertices_all st"
  by (cases label)
     (auto simp: doProcessEdge_def split: option.splits)

lemma doProcessEdges_vertices_all:
  "doProcessEdges st label outV inVs property = Inr st' \<Longrightarrow> vertices_all st' = vertices_all st"
  by (induction inVs arbitrary: st) (auto split: sum.splits dest: doProcessEdge_vertices_all)

lemma processEdge_vertices_all:
  "processEdge st e = Inr st' \<Longrightarrow> vertices_all st' = vertices_all st"
  by (cases e) (auto dest: doProcessEdge_vertices_all doProcessEdges_vertices_all)

lemma vertexIds_Nil: "vertexIds pf [] = {}"
  by (simp add: vertexIds_def)

lemma vertexIds_Cons:
  "vertexIds pf (l # lns) =
     (case (if l = [] then None else jsonParse pf l) of
        Some (JVertex v) \<Rightarrow> insert (vid v) (vertexIds pf lns)
      | _ \<Rightarrow> vertexIds pf lns)"
  by (auto simp: vertexIds_def split: option.splits JsonValue.splits)

lemma processElement_vertices_all:
  assumes "processElement pf st el = Inr st'"
  shows "dom (vertices_all st') =
     (case el of JVertex v \<Rightarrow> insert (vid v) (dom (vertices_all st)) | _ \<Rightarrow> dom (vertices_all st))"
proof (cases el)
  case (JVertex v)
  with assms have "processVertex pf st v = Inr st'" by simp
  from processVertex_vertices_all[OF this] JVertex show ?thesis by simp
next
  case (JEdge e)
  with assms have "processEdge st e = Inr st'" by simp
  from processEdge_vertices_all[OF this] JEdge show ?thesis by simp
qed (use assms in simp_all)

lemma processLine_vertices_all:
  assumes "processLine pf st l = Inr st'"
  shows "dom (vertices_all st') = dom (vertices_all st) \<union> vertexIds pf [l]"
proof (cases "l = [] \<or> jsonParse pf l = None")
  case True
  with assms show ?thesis
    by (auto simp: processLine_def vertexIds_Cons vertexIds_Nil split: if_splits)
next
  case False
  then obtain el where el: "l \<noteq> []" "jsonParse pf l = Some el" by auto
  with assms have "processElement pf st el = Inr st'" by (simp add: processLine_def)
  from processElement_vertices_all[OF this] el show ?thesis
    by (cases el) (simp_all add: vertexIds_Cons vertexIds_Nil)
qed

lemma vertexIds_append: "vertexIds pf (xs @ ys) = vertexIds pf xs \<union> vertexIds pf ys"
  by (auto simp: vertexIds_def)

lemma processLines_vertices_all:
  "processLines pf st lns = Inr st' \<Longrightarrow>
   dom (vertices_all st') = dom (vertices_all st) \<union> vertexIds pf lns"
proof (induction lns arbitrary: st)
  case Nil
  then show ?case by (simp add: vertexIds_Nil)
next
  case (Cons l lns)
  then obtain st1 where 1: "processLine pf st l = Inr st1" and 2: "processLines pf st1 lns = Inr st'"
    by (auto split: sum.splits)
  have "vertexIds pf (l # lns) = vertexIds pf [l] \<union> vertexIds pf lns"
    using vertexIds_append[of pf "[l]" lns] by simp
  with Cons.IH[OF 2] processLine_vertices_all[OF 1] show ?case by auto
qed

lemma ingested_ids:
  "processLines pf emptyStore pre = Inr st \<Longrightarrow> dom (vertices_all st) = vertexIds pf pre"
  using processLines_vertices_all[of pf emptyStore pre st] by (simp add: emptyStore_def)

lemma doProcessEdge_dangling:
  "outV \<notin> dom (vertices_all st) \<Longrightarrow> doProcessEdge st label outV inV property = Inl (NoVertexFound outV)"
  "outV \<in> dom (vertices_all st) \<Longrightarrow> inV \<notin> dom (vertices_all st) \<Longrightarrow>
     doProcessEdge st label outV inV property = Inl (NoVertexFound inV)"
  by (auto simp: doProcessEdge_def split: option.splits)

lemma doProcessEdge_known:
  "outV \<in> dom (vertices_all st) \<Longrightarrow> inV \<in> dom (vertices_all st) \<Longrightarrow>
   \<exists>st'. doProcessEdge st label outV inV property = Inr st'"
  by (auto simp: doProcessEdge_def split: option.splits)

lemma doProcessEdges_first_missing:
  assumes "inVs \<noteq> []"
    and "find (\<lambda>i. i \<notin> dom (vertices_all st)) (outV # inVs) = Some j"
  shows "doProcessEdges st label outV inVs property = Inl (NoVertexFound j)"
  using assms
proof (induction inVs arbitrary: st)
  case Nil
  then show ?case by simp
next
  case (Cons i inVs)
  show ?case
  proof (cases "outV \<in> dom (vertices_all st)")
    case False
    with Cons.prems have "j = outV" by simp
    with False show ?thesis by (simp add: doProcessEdge_dangling(1))
  next
    case out: True
    show ?thesis
    proof (cases "i \<in> dom (vertices_all st)")
      case False
      with out Cons.prems have "j = i" by simp
      with out False show ?thesis by (simp add: doProcessEdge_dangling(2))
    next
      case True
      from doProcessEdge_known[OF out True] obtain st1
        where 1: "doProcessEdge st label outV i property = Inr st1" by blast
      then have eq: "vertices_all st1 = vertices_all st" by (rule doProcessEdge_vertices_all)
      from Cons.prems out True
      have f: "find (\<lambda>i. i \<notin> dom (vertices_all st1)) (outV # inVs) = Some j"
        by (simp add: eq)
      with out eq have "inVs \<noteq> []" by auto
      from Cons.IH[OF this f] 1 show ?thesis by simp
    qed
  qed
qed

lemma processEdge_first_missing:
  assumes "edgeIns e \<noteq> []"
    and "find (\<lambda>i. i \<notin> dom (vertices_all st)) (edgeOut e # edgeIns e) = Some j"
  shows "processEdge st e = Inl (NoVertexFound j)"
proof (cases e)
  case (E11 label outV inV property)
  with assms(2) show ?thesis
    by (cases "outV \<in> dom (vertices_all st)") (auto simp: doProcessEdge_dangling split: if_splits)
next
  case (E1N label outV inVs property)
  with assms doProcessEdges_first_missing[of inVs st outV j label] show ?thesis by simp
qed

lemma processEdge_no_target: "edgeIns e = [] \<Longrightarrow> processEdge st e = Inr st"
  by (cases e) simp_all

lemma find_missing:
  "\<exists>i \<in> set xs. i \<notin> S \<Longrightarrow> \<exists>j. find (\<lambda>i. i \<notin> S) xs = Some j"
  by (cases "find (\<lambda>i. i \<notin> S) xs") (auto simp: find_None_iff)

text \<open>
  Claim C6, as amended. Take a stream with an edge line. When the edge has at least one
  target (\<open>inV\<close>, or a non-empty \<open>inVs\<close>) and an endpoint, \<open>outV\<close> or one of the targets,
  that is not the id of a vertex ingested on an earlier line, \<open>load\<close> is rejected and
  returns no store; and when no earlier line was rejected, the rejection is
  \<^verbatim>\<open>No vertex found for Id ...\<close> for the first such endpoint in the order \<open>outV\<close>, then
  the targets as listed. When \<open>inVs\<close> is empty the edge is applied as no single-target
  application at all: its \<open>outV\<close> is never looked up, the line leaves every store as it
  is, and \<open>load\<close> does what it does without the line.
\<close>

theorem dangling_edge_aborts_load:
  assumes "l \<noteq> []" and "jsonParse pf l = Some (JEdge e)"
  shows "(edgeIns e \<noteq> [] \<and> (\<exists>i \<in> set (edgeOut e # edgeIns e). i \<notin> vertexIds pf pre) \<longrightarrow>
            isl (load pf (pre @ l # post)) \<and>
            (\<forall>st. processLines pf emptyStore pre = Inr st \<longrightarrow>
               (\<exists>i. find (\<lambda>i. i \<notin> vertexIds pf pre) (edgeOut e # edgeIns e) = Some i \<and>
                    load pf (pre @ l # post) = Inl (NoVertexFound i)))) \<and>
         (edgeIns e = [] \<longrightarrow>
            (\<forall>st. processLine pf st l = Inr st) \<and>
            load pf (pre @ l # post) = load pf (pre @ post))"
proof (intro conjI impI)
  assume h: "edgeIns e \<noteq> [] \<and> (\<exists>i \<in> set (edgeOut e # edgeIns e). i \<notin> vertexIds pf pre)"
  from h find_missing[of "edgeOut e # edgeIns e" "vertexIds pf pre"] obtain j where
    j: "find (\<lambda>i. i \<notin> vertexIds pf pre) (edgeOut e # edgeIns e) = Some j" by blast
  have at: "load pf (pre @ l # post) = Inl (NoVertexFound j)"
    if pre: "processLines pf emptyStore pre = Inr st" for st
  proof -
    from j ingested_ids[OF pre]
    have "find (\<lambda>i. i \<notin> dom (vertices_all st)) (edgeOut e # edgeIns e) = Some j" by simp
    from processEdge_first_missing[OF _ this] h
    have "processEdge st e = Inl (NoVertexFound j)" by simp
    with assms have "processLine pf st l = Inl (NoVertexFound j)"
      by (simp add: processLine_def)
    from load_at_line[OF pre this] show ?thesis .
  qed
  show "isl (load pf (pre @ l # post))"
  proof (cases "processLines pf emptyStore pre")
    case (Inl e')
    then show ?thesis by (simp add: load_def processLines_append)
  next
    case (Inr st)
    from at[OF this] show ?thesis by simp
  qed
  from at j show "\<forall>st. processLines pf emptyStore pre = Inr st \<longrightarrow>
               (\<exists>i. find (\<lambda>i. i \<notin> vertexIds pf pre) (edgeOut e # edgeIns e) = Some i \<and>
                    load pf (pre @ l # post) = Inl (NoVertexFound i))" by blast
next
  assume n: "edgeIns e = []"
  with assms show s: "\<forall>st. processLine pf st l = Inr st"
    by (simp add: processLine_def processEdge_no_target)
  then show "load pf (pre @ l # post) = load pf (pre @ post)"
    by (simp add: load_skip_line)
qed

text \<open>The theorem at the sample header followed by the \<open>next\<close> edge from 5 to 7, whose
  endpoints come later in the sample, and at the header followed by an item edge without
  targets.\<close>

lemma header_ids: "vertexIds samplePlatform (map fst sampleHeader) = {IdNum 1, IdNum 2}"
  by (auto simp: sample_lines vertexIds_Cons vertexIds_Nil samplePlatform_fields sampleParse_simps)

theorem dangling_edge_witness:
  \<open>load samplePlatform
     (map fst sampleHeader @ [''{"id":22,"type":"edge","label":"next","outV":5,"inV":7}'']) =
     Inl (NoVertexFound (IdNum 5)) \<and>
   load samplePlatform (map fst sampleHeader @ [fst sampleEmptyEdge]) =
     load samplePlatform (map fst sampleHeader)\<close>
proof -
  let ?l = \<open>''{"id":22,"type":"edge","label":"next","outV":5,"inV":7}''\<close>
  let ?e = "E11 EL_next (IdNum 5) (IdNum 7) None"
  have 1: "?l \<noteq> []" by simp
  have 2: "jsonParse samplePlatform ?l = Some (JEdge ?e)"
    by (simp add: samplePlatform_fields sampleParse_simps)
  have 3: "edgeIns ?e \<noteq> [] \<and>
           (\<exists>i \<in> set (edgeOut ?e # edgeIns ?e). i \<notin> vertexIds samplePlatform (map fst sampleHeader))"
    by (simp add: header_ids)
  have 4: "find (\<lambda>i. i \<notin> vertexIds samplePlatform (map fst sampleHeader))
             (edgeOut ?e # edgeIns ?e) = Some (IdNum 5)"
    by (simp add: header_ids)
  from dangling_edge_aborts_load[OF 1 2, of "map fst sampleHeader" "[]", THEN conjunct1,
      THEN mp, OF 3, THEN conjunct2, THEN spec, THEN mp, OF header_lines] 4
  have a: "load samplePlatform (map fst sampleHeader @ [?l]) = Inl (NoVertexFound (IdNum 5))"
    by simp
  have 5: "fst sampleEmptyEdge \<noteq> []" by (simp add: sampleEmptyEdge_def)
  have 6: "jsonParse samplePlatform (fst sampleEmptyEdge) =
             Some (JEdge (E1N EL_item (IdNum 99) [] (Some IP_references)))"
    by (simp add: samplePlatform_fields sampleParse_simps sampleEmptyEdge_def)
  from dangling_edge_aborts_load[OF 5 6, of "map fst sampleHeader" "[]", THEN conjunct2]
  have b: "load samplePlatform (map fst sampleHeader @ [fst sampleEmptyEdge]) =
             load samplePlatform (map fst sampleHeader)"
    by simp
  from a b show ?thesis by simp
qed

text \<open>
  Claim C6 as stated fails: the header followed by an item edge from the unknown id 99 to
  an empty list of targets loads.
\<close>

theorem empty_edge_counterexample:
  "jsonParse samplePlatform (fst sampleEmptyEdge) =
     Some (JEdge (E1N EL_item (IdNum 99) [] (Some IP_references))) \<and>
   fst sampleEmptyEdge \<noteq> [] \<and>
   IdNum 99 \<notin> vertexIds samplePlatform (map fst sampleHeader) \<and>
   \<not> isl (load samplePlatform (map fst sampleHeader @ [fst sampleEmptyEdge]))"
  by (simp add: header_ids)
     (simp add: load_def onClose_def sample_lines sampleParse_simps ingest_defs semver_defs)

section \<open>Documents that share a uri\<close>


text \<open>Every bucket that \<open>load\<close> builds has a first document, so \<open>documents[0]\<close> is never
  read from an empty bucket.\<close>

lemma doProcessEdge_indices_documents:
  "doProcessEdge st label outV inV property = Inr st' \<Longrightarrow> indices_documents st' = indices_documents st"
  by (cases label) (auto simp: doProcessEdge_def split: option.splits)

lemma doProcessEdges_indices_documents:
  "doProcessEdges st label outV inVs property = Inr st' \<Longrightarrow> indices_documents st' = indices_documents st"
  by (induction inVs arbitrary: st) (auto split: sum.splits dest: doProcessEdge_indices_documents)

lemma processEdge_indices_documents:
  "processEdge st e = Inr st' \<Longrightarrow> indices_documents st' = indices_documents st"
  by (cases e) (auto dest: doProcessEdge_indices_documents doProcessEdges_indices_documents)

lemma processVertex_buckets:
  assumes "processVertex pf st v = Inr st'"
    and "\<And>u b. indices_documents st u = Some b \<Longrightarrow> documents b \<noteq> []"
    and "indices_documents st' u = Some b"
  shows "documents b \<noteq> []"
  using assms
  by (cases v)
     (auto simp: processVertex_def doProcessDocument_def Let_def
           split: option.splits if_splits EventScope.splits)

lemma processLine_buckets:
  assumes "processLine pf st l = Inr st'"
    and inv: "\<And>u b. indices_documents st u = Some b \<Longrightarrow> documents b \<noteq> []"
    and "indices_documents st' u = Some b"
  shows "documents b \<noteq> []"
proof (cases "l = [] \<or> jsonParse pf l = None")
  case True
  with assms show ?thesis by (auto simp: processLine_def split: if_splits)
next
  case False
  then obtain el where el: "l \<noteq> []" "jsonParse pf l = Some el" by auto
  with assms(1) have pe: "processElement pf st el = Inr st'" by (simp add: processLine_def)
  show ?thesis
  proof (cases el)
    case (JVertex v)
    with pe have "processVertex pf st v = Inr st'" by simp
    from processVertex_buckets[OF this inv assms(3)] show ?thesis by simp
  next
    case (JEdge e)
    with pe have "processEdge st e = Inr st'" by simp
    from processEdge_indices_documents[OF this] inv assms(3) show ?thesis by simp
  qed (use pe inv assms(3) in auto)
qed

lemma processLines_buckets:
  "processLines pf st lns = Inr st' \<Longrightarrow>
   (\<And>u b. indices_documents st u = Some b \<Longrightarrow> documents b \<noteq> []) \<Longrightarrow>
   indices_documents st' u = Some b \<Longrightarrow> documents b \<noteq> []"
proof (induction lns arbitrary: st)
  case Nil
  then show ?case by simp
next
  case (Cons l lns)
  from Cons.prems(1) obtain st1 where 1: "processLine pf st l = Inr st1"
    and 2: "processLines pf st1 lns = Inr st'" by (auto split: sum.splits)
  have "\<And>u b. indices_documents st1 u = Some b \<Longrightarrow> documents b \<noteq> []"
    using processLine_buckets[OF 1] Cons.prems(2) by blast
  from Cons.IH[OF 2 this Cons.prems(3)] show ?case .
qed

lemma bucket_nonempty:
  "processLines pf emptyStore lns = Inr st \<Longrightarrow> indices_documents st u = Some b \<Longrightarrow>
   documents b \<noteq> []"
  using processLines_buckets[of pf emptyStore lns st u b] by (simp add: emptyStore_def)

text \<open>
  Claim C7. Ingesting a document vertex whose uri is registered already, with a bucket
  whose hash differs from the hash of the new content, does not reject the load:
  \<open>processVertex\<close> returns a store and the remaining lines are processed from it. In
  that store the bucket of the uri keeps its hash and has the new document appended;
  the new document is registered under its own id in \<open>vertices.documents\<close> and
  \<open>vertices.all\<close>; \<open>findFile\<close> reports the id of the first document and the first hash
  as before, and the content stored under that hash is what it was. The mismatch is
  printed on the console. (The bucket has a first document in every loaded store, by
  \<open>bucket_nonempty\<close>.)
\<close>

theorem divergent_document_keeps_first:
  assumes b: "indices_documents st u = Some b" and d: "documents b = d # ds"
    and h: "hash b \<noteq> md5 pf (case c of Some t \<Rightarrow> t | None \<Rightarrow> ''No content provided.'')"
  shows "\<exists>st'. processVertex pf st (DocumentV i u c) = Inr st' \<and>
           indices_documents st' u =
             Some \<lparr>hash = hash b, documents = documents b @ [DocumentV i u c]\<rparr> \<and>
           vertices_documents st' i = Some (DocumentV i u c) \<and>
           vertices_all st' i = Some (DocumentV i u c) \<and>
           findFile st u = Inr (Some (vid d, hash b)) \<and>
           findFile st' u = Inr (Some (vid d, hash b)) \<and>
           fileContent st' (vid d, hash b) = fileContent st (vid d, hash b) \<and>
           console st' = console st @ [''Document '' @ u @ '' has different content.''] \<and>
           (\<forall>l lns. l \<noteq> [] \<and> jsonParse pf l = Some (JVertex (DocumentV i u c)) \<longrightarrow>
              processLines pf st (l # lns) = processLines pf st' lns)"
proof -
  let ?st' = "doProcessDocument pf (st\<lparr>vertices_all := (vertices_all st)(i \<mapsto> DocumentV i u c)\<rparr>) i u c"
  have pv: "processVertex pf st (DocumentV i u c) = Inr ?st'"
    by (simp add: processVertex_def)
  have 1: "indices_documents ?st' u =
             Some \<lparr>hash = hash b, documents = documents b @ [DocumentV i u c]\<rparr>"
    using b by (simp add: doProcessDocument_def Let_def)
  have 2: "vertices_documents ?st' i = Some (DocumentV i u c)"
    by (simp add: doProcessDocument_def Let_def)
  have 3: "vertices_all ?st' i = Some (DocumentV i u c)"
    by (simp add: doProcessDocument_def Let_def)
  have 4: "findFile st u = Inr (Some (vid d, hash b))"
    using b d by (simp add: findFile_def)
  have 5: "findFile ?st' u = Inr (Some (vid d, hash b))"
    using 1 d by (simp add: findFile_def)
  have 6: "fileContent ?st' (vid d, hash b) = fileContent st (vid d, hash b)"
    using h by (auto simp: fileContent_def doProcessDocument_def Let_def)
  have 7: "console ?st' = console st @ [''Document '' @ u @ '' has different content.'']"
    using b h by (auto simp: doProcessDocument_def Let_def)
  have 8: "processLines pf st (l # lns) = processLines pf ?st' lns"
    if "l \<noteq> [] \<and> jsonParse pf l = Some (JVertex (DocumentV i u c))" for l lns
    using that pv by (simp add: processLine_def)
  from pv 1 2 3 4 5 6 7 8 show ?thesis by blast
qed

text \<open>The theorem at the sample store and a second document for \<open>x.ts\<close> with other
  contents; the sample followed by that document loads.\<close>

theorem divergent_document_witness:
  "(\<exists>st'. processVertex samplePlatform sampleStore
             (DocumentV (IdNum 41) ''file:///w/x.ts'' (Some ''let b'')) = Inr st' \<and>
          indices_documents st' ''file:///w/x.ts'' =
            Some \<lparr>hash = ''md5 of let a'',
                  documents = [sampleDocX, DocumentV (IdNum 41) ''file:///w/x.ts'' (Some ''let b'')]\<rparr> \<and>
          findFile st' ''file:///w/x.ts'' = Inr (Some (IdNum 3, ''md5 of let a'')) \<and>
          fileContent st' (IdNum 3, ''md5 of let a'') = Some ''let a'') \<and>
   \<not> isl (load samplePlatform (sampleStream @ [fst sampleSecondDocument]))"
proof
  have 1: "indices_documents sampleStore ''file:///w/x.ts'' =
             Some \<lparr>hash = ''md5 of let a'', documents = [sampleDocX]\<rparr>"
    by (simp add: sampleStore_fields)
  have 2: "documents \<lparr>hash = ''md5 of let a'', documents = [sampleDocX]\<rparr> = sampleDocX # []"
    by simp
  have 3: "hash \<lparr>hash = ''md5 of let a'', documents = [sampleDocX]\<rparr> \<noteq>
             md5 samplePlatform (case Some ''let b'' of Some t \<Rightarrow> t | None \<Rightarrow> ''No content provided.'')"
    by (simp add: samplePlatform_fields)
  from divergent_document_keeps_first[OF 1 2 3, of "IdNum 41"]
  show "\<exists>st'. processVertex samplePlatform sampleStore
             (DocumentV (IdNum 41) ''file:///w/x.ts'' (Some ''let b'')) = Inr st' \<and>
          indices_documents st' ''file:///w/x.ts'' =
            Some \<lparr>hash = ''md5 of let a'',
                  documents = [sampleDocX, DocumentV (IdNum 41) ''file:///w/x.ts'' (Some ''let b'')]\<rparr> \<and>
          findFile st' ''file:///w/x.ts'' = Inr (Some (IdNum 3, ''md5 of let a'')) \<and>
          fileContent st' (IdNum 3, ''md5 of let a'') = Some ''let a''"
    by (auto simp: fileContent_def sampleStore_fields)
  show "\<not> isl (load samplePlatform (sampleStream @ [fst sampleSecondDocument]))"
    by (simp add: load_def processLines_append sample_lines_loaded sampleSecondDocument_def
          processLine_def samplePlatform_fields sampleParse_simps processVertex_def
          doProcessDocument_def Let_def onClose_def sampleStore_fields semver_defs)
qed

section \<open>The version gate at the end of load\<close>

lemma gate_versions:
  "map_option satisfiesRange (semverParse ''0.4.5'') = Some False"
  "map_option satisfiesRange (semverParse ''0.4.99'') = Some False"
  "map_option satisfiesRange (semverParse ''0.4.100'') = Some True"
  "map_option satisfiesRange (semverParse ''0.5.0'') = Some False"
  "map_option satisfiesRange (semverParse ''0.5.0-next.2'') = Some True"
  "map_option satisfiesRange (semverParse ''0.5.0-next.3'') = Some False"
  by (simp_all add: semver_defs)

lemma load_onClose:
  "processLines pf emptyStore lns = Inr st \<Longrightarrow> projectRoot st = Some root \<Longrightarrow>
   version st = Some v \<Longrightarrow>
   load pf lns =
     (case semverParse v of
        None \<Rightarrow> Inl (NoValidSemVer v)
      | Some sv \<Rightarrow> if satisfiesRange sv then Inr st else Inl (RequiresVersion v))"
  by (simp add: load_def onClose_def)

text \<open>
  Claim C4, as amended. When the lines are accepted and the store has a project root and
  the version \<open>v\<close>, \<open>load\<close> accepts exactly when \<open>v\<close> parses as a semantic version that is
  above 0.4.99 and not above 0.5.0-next.2 in the precedence of semantic versions, pre-
  releases included; otherwise it is rejected with an error that names \<open>v\<close>. So "0.4.5"
  and "0.4.99" are rejected, "0.4.100" is accepted, "0.5.0-next.2" is accepted and
  "0.5.0-next.3" is rejected. "0.5.0" is rejected: a release is above each of its own
  pre-releases, so 0.5.0 is above the upper bound 0.5.0-next.2.
\<close>

theorem version_gate:
  assumes "processLines pf emptyStore lns = Inr st" and "projectRoot st = Some root"
    and "version st = Some v"
  shows "load pf lns =
           (case semverParse v of
              None \<Rightarrow> Inl (NoValidSemVer v)
            | Some sv \<Rightarrow>
                if compareSemVer sv lowerBound = GT \<and> compareSemVer sv upperBound \<noteq> GT
                then Inr st else Inl (RequiresVersion v)) \<and>
         (v = ''0.4.5'' \<longrightarrow> load pf lns = Inl (RequiresVersion ''0.4.5'')) \<and>
         (v = ''0.4.99'' \<longrightarrow> load pf lns = Inl (RequiresVersion ''0.4.99'')) \<and>
         (v = ''0.4.100'' \<longrightarrow> load pf lns = Inr st) \<and>
         (v = ''0.5.0'' \<longrightarrow> load pf lns = Inl (RequiresVersion ''0.5.0'')) \<and>
         (v = ''0.5.0-next.2'' \<longrightarrow> load pf lns = Inr st) \<and>
         (v = ''0.5.0-next.3'' \<longrightarrow> load pf lns = Inl (RequiresVersion ''0.5.0-next.3''))"
proof -
  note eq = load_onClose[OF assms]
  have 0: "load pf lns =
           (case semverParse v of
              None \<Rightarrow> Inl (NoValidSemVer v)
            | Some sv \<Rightarrow>
                if compareSemVer sv lowerBound = GT \<and> compareSemVer sv upperBound \<noteq> GT
                then Inr st else Inl (RequiresVersion v))"
    using eq by (simp add: satisfiesRange_def split: option.splits)
  have 1: "v = ''0.4.5'' \<longrightarrow> load pf lns = Inl (RequiresVersion ''0.4.5'')"
    using eq gate_versions(1) by (auto split: option.splits)
  have 2: "v = ''0.4.99'' \<longrightarrow> load pf lns = Inl (RequiresVersion ''0.4.99'')"
    using eq gate_versions(2) by (auto split: option.splits)
  have 3: "v = ''0.4.100'' \<longrightarrow> load pf lns = Inr st"
    using eq gate_versions(3) by (auto split: option.splits)
  have 4: "v = ''0.5.0'' \<longrightarrow> load pf lns = Inl (RequiresVersion ''0.5.0'')"
    using eq gate_versions(4) by (auto split: option.splits)
  have 5: "v = ''0.5.0-next.2'' \<longrightarrow> load pf lns = Inr st"
    using eq gate_versions(5) by (auto split: option.splits)
  have 6: "v = ''0.5.0-next.3'' \<longrightarrow> load pf lns = Inl (RequiresVersion ''0.5.0-next.3'')"
    using eq gate_versions(6) by (auto split: option.splits)
  from 0 1 2 3 4 5 6 show ?thesis by blast
qed

text \<open>The theorem at the sample, whose version is 0.5.0-next.2.\<close>

theorem version_gate_witness:
  "processLines samplePlatform emptyStore sampleStream = Inr sampleStore \<and>
   projectRoot sampleStore = Some ''file:///w'' \<and>
   version sampleStore = Some ''0.5.0-next.2'' \<and>
   load samplePlatform sampleStream = Inr sampleStore"
  using version_gate[OF sample_lines_loaded, of "''file:///w''" "''0.5.0-next.2''", THEN conjunct2]
  by (simp add: sample_lines_loaded sampleStore_fields)

text \<open>Claim C4 as stated fails: a stream with version "0.5.0" and a project root is
  rejected.\<close>

theorem version_0_5_0_counterexample:
  \<open>load samplePlatform
     [''{"id":1,"type":"vertex","label":"metaData","version":"0.5.0"}'',
      ''{"id":2,"type":"vertex","label":"group","rootUri":"file:///w"}''] =
     Inl (RequiresVersion ''0.5.0'')\<close>
  by (simp add: load_def onClose_def sampleParse_simps ingest_defs semver_defs)

section \<open>The range at a position\<close>

lemma containsPosition_positionInSpan: "containsPosition sp p = positionInSpan sp p"
  by (auto simp: containsPosition_def positionInSpan_def)

lemma containsRange_nestsInside:
  "line (start other) \<le> line (finish other) \<Longrightarrow> containsRange sp other = nestsInside other sp"
  by (auto simp: containsRange_def nestsInside_def positionLe_def)

lemma positionInSpan_lines: "positionInSpan sp p \<Longrightarrow> line (start sp) \<le> line (finish sp)"
  by (auto simp: positionInSpan_def)

lemma candidateLoop_Some:
  "matchesPosition p c \<Longrightarrow>
   candidateLoop p items (Some c) = Some (mostSpecific c (filter (matchesPosition p) items))"
proof (induction items arbitrary: c)
  case Nil
  then show ?case by simp
next
  case (Cons it items)
  from Cons.prems obtain ci csp ctg where c: "c = RangeV ci csp ctg"
    by (cases c) auto
  show ?case
  proof (cases it)
    case (RangeV i sp tg)
    show ?thesis
    proof (cases "positionInSpan sp p")
      case True
      then have m: "matchesPosition p (RangeV i sp tg)" by simp
      from True have "containsRange csp sp = nestsInside sp csp"
        by (intro containsRange_nestsInside positionInSpan_lines)
      with True RangeV c Cons.IH[OF m] Cons.IH[OF Cons.prems] show ?thesis
        by (simp add: containsPosition_positionInSpan)
    next
      case False
      with RangeV Cons.IH[OF Cons.prems] show ?thesis
        by (simp add: containsPosition_positionInSpan)
    qed
  qed (use Cons.IH[OF Cons.prems] in simp_all)
qed

lemma candidateLoop_None:
  "candidateLoop p items None =
     (case filter (matchesPosition p) items of
        [] \<Rightarrow> None
      | m # ms \<Rightarrow> Some (mostSpecific m ms))"
proof (induction items)
  case Nil
  then show ?case by simp
next
  case (Cons it items)
  show ?case
  proof (cases it)
    case (RangeV i sp tg)
    show ?thesis
    proof (cases "positionInSpan sp p")
      case True
      then have "matchesPosition p (RangeV i sp tg)" by simp
      from candidateLoop_Some[OF this, of items] True RangeV show ?thesis
        by (simp add: containsPosition_positionInSpan)
    next
      case False
      with RangeV Cons.IH show ?thesis by (simp add: containsPosition_positionInSpan)
    qed
  qed (use Cons.IH in simp_all)
qed

lemma findRangeFromPosition_rangeAtPosition:
  "findRangeFromPosition st file p = rangeAtPosition st file p"
  by (auto simp: findRangeFromPosition_def rangeAtPosition_def candidateLoop_None
           split: option.splits list.splits)

lemma lines_example:
  assumes "line (start r1) = 0" "line (finish r1) = 10" "line (start r2) = 2" "line (finish r2) = 4"
  shows "mostSpecific (RangeV i1 r1 t1) [RangeV i2 r2 t2] = RangeV i2 r2 t2"
    and "mostSpecific (RangeV i2 r2 t2) [RangeV i1 r1 t1] = RangeV i2 r2 t2"
  using assms by (simp_all add: nestsInside_def positionLe_def)

text \<open>
  Claim C5. \<open>findRangeFromPosition\<close> is \<open>rangeAtPosition\<close>: it looks at the ranges that
  the canonical document of the uri contains directly, keeps those whose span contains
  the position, starts from the first match and lets each later match replace the
  current choice exactly when it nests inside it. \<open>containsPosition\<close> is containment as
  the claim words it (\<open>positionInSpan\<close>). And when the matches at (line 3, character 0)
  are a range over lines 0 to 10 and a range over lines 2 to 4, in either order, the
  answer is the range over lines 2 to 4.
\<close>

theorem findRangeFromPosition_most_specific:
  "findRangeFromPosition st file p = rangeAtPosition st file p \<and>
   containsPosition sp p = positionInSpan sp p \<and>
   (indices_documents st file = Some b \<and> documents b = d # ds \<and>
    out_contains st (vid d) = Some cs \<and>
    (filter (matchesPosition \<lparr>line = 3, character = 0\<rparr>) cs = [RangeV i1 r1 t1, RangeV i2 r2 t2] \<or>
     filter (matchesPosition \<lparr>line = 3, character = 0\<rparr>) cs = [RangeV i2 r2 t2, RangeV i1 r1 t1]) \<and>
    line (start r1) = 0 \<and> line (finish r1) = 10 \<and> line (start r2) = 2 \<and> line (finish r2) = 4 \<longrightarrow>
    findRangeFromPosition st file \<lparr>line = 3, character = 0\<rparr> = Inr (Some (RangeV i2 r2 t2)))"
proof (intro conjI impI)
  show "findRangeFromPosition st file p = rangeAtPosition st file p"
    by (rule findRangeFromPosition_rangeAtPosition)
  show "containsPosition sp p = positionInSpan sp p"
    by (rule containsPosition_positionInSpan)
next
  assume a: "indices_documents st file = Some b \<and> documents b = d # ds \<and>
    out_contains st (vid d) = Some cs \<and>
    (filter (matchesPosition \<lparr>line = 3, character = 0\<rparr>) cs = [RangeV i1 r1 t1, RangeV i2 r2 t2] \<or>
     filter (matchesPosition \<lparr>line = 3, character = 0\<rparr>) cs = [RangeV i2 r2 t2, RangeV i1 r1 t1]) \<and>
    line (start r1) = 0 \<and> line (finish r1) = 10 \<and> line (start r2) = 2 \<and> line (finish r2) = 4"
  then have l: "line (start r1) = 0" "line (finish r1) = 10" "line (start r2) = 2"
    "line (finish r2) = 4" by simp_all
  note ex = lines_example[OF l]
  from a have docs: "indices_documents st file = Some b" "documents b = d # ds"
    "out_contains st (vid d) = Some cs" by simp_all
  from a consider
      "filter (matchesPosition \<lparr>line = 3, character = 0\<rparr>) cs = [RangeV i1 r1 t1, RangeV i2 r2 t2]"
    | "filter (matchesPosition \<lparr>line = 3, character = 0\<rparr>) cs = [RangeV i2 r2 t2, RangeV i1 r1 t1]"
    by blast
  then have "rangeAtPosition st file \<lparr>line = 3, character = 0\<rparr> = Inr (Some (RangeV i2 r2 t2))"
  proof cases
    case 1
    with docs ex(1) show ?thesis by (simp add: rangeAtPosition_def)
  next
    case 2
    with docs ex(2) show ?thesis by (simp add: rangeAtPosition_def)
  qed
  then show "findRangeFromPosition st file \<lparr>line = 3, character = 0\<rparr> = Inr (Some (RangeV i2 r2 t2))"
    by (simp add: findRangeFromPosition_rangeAtPosition)
qed

text \<open>The theorem at the sample: in \<open>x.ts\<close> range 17 spans lines 0 to 10 and range 14 lines
  2 to 4.\<close>

theorem findRangeFromPosition_witness:
  "findRangeFromPosition sampleStore ''file:///w/x.ts'' \<lparr>line = 3, character = 0\<rparr> =
     Inr (Some sampleRange14) \<and>
   filter (matchesPosition \<lparr>line = 3, character = 0\<rparr>) [sampleRange5, sampleRange17, sampleRange14] =
     [sampleRange17, sampleRange14]"
proof -
  let ?p = "\<lparr>line = 3, character = 0\<rparr>"
  let ?b = "\<lparr>hash = ''md5 of let a'', documents = [sampleDocX]\<rparr>"
  let ?r1 = "\<lparr>start = \<lparr>line = 0, character = 0\<rparr>, finish = \<lparr>line = 10, character = 0\<rparr>\<rparr>"
  let ?r2 = "\<lparr>start = \<lparr>line = 2, character = 0\<rparr>, finish = \<lparr>line = 4, character = 1\<rparr>\<rparr>"
  have f: "filter (matchesPosition ?p) [sampleRange5, sampleRange17, sampleRange14] =
     [sampleRange17, sampleRange14]"
    by (simp add: positionInSpan_def)
  have "indices_documents sampleStore ''file:///w/x.ts'' = Some ?b \<and>
        documents ?b = sampleDocX # [] \<and>
        out_contains sampleStore (vid sampleDocX) = Some [sampleRange5, sampleRange17, sampleRange14] \<and>
        (filter (matchesPosition ?p) [sampleRange5, sampleRange17, sampleRange14] =
           [RangeV (IdNum 17) ?r1 None, RangeV (IdNum 14) ?r2 None] \<or>
         filter (matchesPosition ?p) [sampleRange5, sampleRange17, sampleRange14] =
           [RangeV (IdNum 14) ?r2 None, RangeV (IdNum 17) ?r1 None]) \<and>
        line (start ?r1) = 0 \<and> line (finish ?r1) = 10 \<and> line (start ?r2) = 2 \<and> line (finish ?r2) = 4"
    unfolding f by (simp add: sampleStore_fields)
  from findRangeFromPosition_most_specific[of sampleStore "''file:///w/x.ts''" ?p ?r1 ?b
      sampleDocX "[]" "[sampleRange5, sampleRange17, sampleRange14]"
      "IdNum 17" ?r1 None "IdNum 14" ?r2 None, THEN conjunct2, THEN conjunct2, THEN mp, OF this]
  show ?thesis using f by simp
qed

section \<open>Document symbols\<close>

text \<open>
  Claim C9. When the canonical document of the uri has a document symbol result whose
  result list is empty, \<open>documentSymbols\<close> returns \<^verbatim>\<open>undefined\<close> (\<open>None\<close>), not an empty
  sequence; and whenever it returns a non-empty sequence, the canonical document has a
  document symbol result whose result list is not empty.
\<close>

theorem documentSymbols_empty_result:
  "(indices_documents st (toDatabase pf u) = Some b \<and> documents b = d # ds \<and>
    out_documentSymbol st (vid d) = Some (DocumentSymbolResultV i syms) \<and>
    (syms = FullSymbols [] \<or> syms = RangeBasedSymbols []) \<longrightarrow>
    documentSymbols pf st u = Inr None) \<and>
   (documentSymbols pf st u = Inr (Some res) \<and> res \<noteq> [] \<longrightarrow>
    (\<exists>b d ds i syms. indices_documents st (toDatabase pf u) = Some b \<and> documents b = d # ds \<and>
       out_documentSymbol st (vid d) = Some (DocumentSymbolResultV i syms) \<and>
       syms \<noteq> FullSymbols [] \<and> syms \<noteq> RangeBasedSymbols []))"
proof (intro conjI impI)
  assume "indices_documents st (toDatabase pf u) = Some b \<and> documents b = d # ds \<and>
    out_documentSymbol st (vid d) = Some (DocumentSymbolResultV i syms) \<and>
    (syms = FullSymbols [] \<or> syms = RangeBasedSymbols [])"
  then show "documentSymbols pf st u = Inr None"
    by (auto simp: documentSymbols_def)
next
  assume "documentSymbols pf st u = Inr (Some res) \<and> res \<noteq> []"
  then show "\<exists>b d ds i syms. indices_documents st (toDatabase pf u) = Some b \<and> documents b = d # ds \<and>
       out_documentSymbol st (vid d) = Some (DocumentSymbolResultV i syms) \<and>
       syms \<noteq> FullSymbols [] \<and> syms \<noteq> RangeBasedSymbols []"
    by (auto simp: documentSymbols_def
             split: option.splits list.splits Vertex.splits SymbolList.splits if_splits sum.splits)
qed

text \<open>The theorem at the sample: document \<open>y.ts\<close> has the result 19 with no entry,
  document \<open>x.ts\<close> the result 18 with the entry for range 5.\<close>

theorem documentSymbols_witness:
  "documentSymbols samplePlatform sampleStore ''file:///w/y.ts'' = Inr None \<and>
   documentSymbols samplePlatform sampleStore ''file:///w/x.ts'' =
     Inr (Some [DocumentSymbol ''a'' [] 13
        \<lparr>start = \<lparr>line = 0, character = 0\<rparr>, finish = \<lparr>line = 0, character = 9\<rparr>\<rparr>
        \<lparr>start = \<lparr>line = 0, character = 4\<rparr>, finish = \<lparr>line = 0, character = 5\<rparr>\<rparr> None])"
proof
  have "indices_documents sampleStore (toDatabase samplePlatform ''file:///w/y.ts'') =
          Some \<lparr>hash = ''md5 of No content provided.'', documents = [sampleDocY]\<rparr> \<and>
        documents \<lparr>hash = ''md5 of No content provided.'', documents = [sampleDocY]\<rparr> = sampleDocY # [] \<and>
        out_documentSymbol sampleStore (vid sampleDocY) = Some sampleSymbols19"
    by (simp add: sampleStore_fields samplePlatform_fields)
  with documentSymbols_empty_result[of sampleStore samplePlatform "''file:///w/y.ts''"
      "\<lparr>hash = ''md5 of No content provided.'', documents = [sampleDocY]\<rparr>" sampleDocY "[]"
      "IdNum 19" "RangeBasedSymbols []"]
  show "documentSymbols samplePlatform sampleStore ''file:///w/y.ts'' = Inr None" by simp
  show "documentSymbols samplePlatform sampleStore ''file:///w/x.ts'' =
     Inr (Some [DocumentSymbol ''a'' [] 13
        \<lparr>start = \<lparr>line = 0, character = 0\<rparr>, finish = \<lparr>line = 0, character = 9\<rparr>\<rparr>
        \<lparr>start = \<lparr>line = 0, character = 4\<rparr>, finish = \<lparr>line = 0, character = 5\<rparr>\<rparr> None])"
    by (simp add: documentSymbols_def sampleStore_fields samplePlatform_fields)
qed

section \<open>The chain walks\<close>

text \<open>
  What \<open>getResultForId\<close> and \<open>findMonikers\<close> compute. The loop reads \<open>out.next\<close> (or
  \<open>in.previous\<close>) at \<open>id\<close>, never at \<open>currentId\<close>, so from the second round on
  \<open>currentId\<close> is the same vertex again and again: the walk answers at the start vertex
  and at its direct successor, and does not return when neither has what it looks for.
\<close>

lemma getResultLoop_diverges:
  assumes "edges (vid nxt) = None" and "out_next st i = Some nxt"
  shows "getResultLoop st edges i (vid nxt) = None"
proof (rule ccontr)
  assume "getResultLoop st edges i (vid nxt) \<noteq> None"
  then obtain y where y: "getResultLoop st edges i (vid nxt) = Some y" by auto
  have "\<not> (st' = st \<and> edges' = edges \<and> i' = i \<and> c = vid nxt)"
    if "getResultLoop st' edges' i' c = Some y'" for st' edges' i' c y'
  proof (rule getResultLoop.raw_induct[where
        P = "\<lambda>st' edges' i' c y'. \<not> (st' = st \<and> edges' = edges \<and> i' = i \<and> c = vid nxt)",
        OF _ that])
    fix f st' i' c y' and edges' :: "Id \<rightharpoonup> 'a"
    assume ih: "\<And>st' edges' i' c y'. f st' edges' i' c = Some y' \<Longrightarrow>
                  \<not> (st' = st \<and> edges' = edges \<and> i' = i \<and> c = vid nxt)"
      and step: "(case edges' c of
                    Some res \<Rightarrow> Some (Some res, c)
                  | None \<Rightarrow>
                      (case out_next st' i' of
                         None \<Rightarrow> Some (None, i')
                       | Some nxt \<Rightarrow> f st' edges' i' (vid nxt))) = Some y'"
    show "\<not> (st' = st \<and> edges' = edges \<and> i' = i \<and> c = vid nxt)"
    proof
      assume eq: "st' = st \<and> edges' = edges \<and> i' = i \<and> c = vid nxt"
      with step assms have "f st edges i (vid nxt) = Some y'" by simp
      from ih[OF this] show False by simp
    qed
  qed
  from this[OF y] show False by simp
qed

lemma getResultForId_closed:
  "getResultForId st i edges =
     (case edges i of
        Some res \<Rightarrow> Some (Some res, i)
      | None \<Rightarrow>
          (case out_next st i of
             None \<Rightarrow> Some (None, i)
           | Some nxt \<Rightarrow>
               (case edges (vid nxt) of
                  Some res \<Rightarrow> Some (Some res, vid nxt)
                | None \<Rightarrow> None)))"
proof (cases "edges i")
  case (Some res)
  then show ?thesis by (simp add: getResultForId_def getResultLoop.simps)
next
  case None
  show ?thesis
  proof (cases "out_next st i")
    case n: None
    with None show ?thesis by (simp add: getResultForId_def getResultLoop.simps)
  next
    case (Some nxt)
    show ?thesis
    proof (cases "edges (vid nxt)")
      case e: None
      from getResultLoop_diverges[where edges = edges and nxt = nxt and st = st and i = i, OF e Some]
        None Some e show ?thesis
        by (simp add: getResultForId_def getResultLoop.simps[of st edges i i])
    next
      case (Some res)
      with None \<open>out_next st i = Some nxt\<close> show ?thesis
        by (simp add: getResultForId_def getResultLoop.simps[of st edges i i]
              getResultLoop.simps[of st edges i "vid nxt"])
    qed
  qed
qed

lemma findMonikersLoop_diverges:
  assumes "out_moniker st (vid previous) = None" and "in_previous st i = Some previous"
  shows "findMonikersLoop st res i (vid previous) = None"
proof (rule ccontr)
  assume "findMonikersLoop st res i (vid previous) \<noteq> None"
  then obtain y where y: "findMonikersLoop st res i (vid previous) = Some y" by auto
  have "\<not> (st' = st \<and> i' = i \<and> c = vid previous)"
    if "findMonikersLoop st' res' i' c = Some y'" for st' res' i' c y'
  proof (rule findMonikersLoop.raw_induct[where
        P = "\<lambda>st' res' i' c y'. \<not> (st' = st \<and> i' = i \<and> c = vid previous)", OF _ that])
    fix f st' res' i' c y'
    assume ih: "\<And>st' res' i' c y'. f st' res' i' c = Some y' \<Longrightarrow>
                  \<not> (st' = st \<and> i' = i \<and> c = vid previous)"
      and step: "(case out_moniker st' c of
                    Some moniker \<Rightarrow> Some (res' @ [moniker])
                  | None \<Rightarrow>
                      (case in_previous st' i' of
                         None \<Rightarrow> Some res'
                       | Some previous \<Rightarrow> f st' res' i' (vid previous))) = Some y'"
    show "\<not> (st' = st \<and> i' = i \<and> c = vid previous)"
    proof
      assume eq: "st' = st \<and> i' = i \<and> c = vid previous"
      with step assms have "f st res' i (vid previous) = Some y'" by simp
      from ih[OF this] show False by simp
    qed
  qed
  from this[OF y] show False by simp
qed

lemma findMonikers_closed:
  "findMonikers st res i =
     (case out_moniker st i of
        Some moniker \<Rightarrow> Some (res @ [moniker])
      | None \<Rightarrow>
          (case in_previous st i of
             None \<Rightarrow> Some res
           | Some previous \<Rightarrow>
               (case out_moniker st (vid previous) of
                  Some moniker \<Rightarrow> Some (res @ [moniker])
                | None \<Rightarrow> None)))"
proof (cases "out_moniker st i")
  case (Some m)
  then show ?thesis by (simp add: findMonikers_def findMonikersLoop.simps)
next
  case None
  show ?thesis
  proof (cases "in_previous st i")
    case n: None
    with None show ?thesis by (simp add: findMonikers_def findMonikersLoop.simps)
  next
    case (Some previous)
    show ?thesis
    proof (cases "out_moniker st (vid previous)")
      case e: None
      from findMonikersLoop_diverges[where previous = previous and st = st and i = i, OF e Some]
        None Some e show ?thesis
        by (simp add: findMonikers_def findMonikersLoop.simps[of st res i i])
    next
      case (Some m)
      with None \<open>in_previous st i = Some previous\<close> show ?thesis
        by (simp add: findMonikers_def findMonikersLoop.simps[of st res i i]
              findMonikersLoop.simps[of st res i "vid previous"])
    qed
  qed
qed

text \<open>
  Claim C1 fails on the code. In the loaded sample, range 14 reaches the hover result 13
  through the chain 14, 15, 16 of \<open>next\<close> edges, with the hover edge on 16. The claim
  says that \<open>getResultForId\<close> returns that result with the anchor 16; the code never
  returns.
\<close>

theorem getResultForId_second_hop_never_returns:
  "load samplePlatform sampleStream = Inr sampleStore \<and>
   out_hover sampleStore (IdNum 14) = None \<and>
   out_next sampleStore (IdNum 14) = Some (ResultSetV (IdNum 15)) \<and>
   out_hover sampleStore (IdNum 15) = None \<and>
   out_next sampleStore (IdNum 15) = Some (ResultSetV (IdNum 16)) \<and>
   out_hover sampleStore (IdNum 16) = Some sampleHover13 \<and>
   getResultForId sampleStore (IdNum 14) (out_hover sampleStore) = None"
  by (simp add: sample_loaded getResultForId_closed sampleStore_fields)

text \<open>
  Claim C2 fails on the code. In the loaded sample the chain 14, 15, 16 is finite and
  has no cycle; no vertex on it has a reference result or a moniker. The claim says
  that both walks terminate (with "not found"); \<open>getResultForId\<close> from 14 and
  \<open>findMonikers\<close> from 16 never return.
\<close>

theorem chain_walks_never_return:
  "load samplePlatform sampleStream = Inr sampleStore \<and>
   out_references sampleStore (IdNum 14) = None \<and>
   out_next sampleStore (IdNum 14) = Some (ResultSetV (IdNum 15)) \<and>
   out_references sampleStore (IdNum 15) = None \<and>
   out_next sampleStore (IdNum 15) = Some (ResultSetV (IdNum 16)) \<and>
   out_references sampleStore (IdNum 16) = None \<and>
   out_next sampleStore (IdNum 16) = None \<and>
   getResultForId sampleStore (IdNum 14) (out_references sampleStore) = None \<and>
   out_moniker sampleStore (IdNum 16) = None \<and>
   in_previous sampleStore (IdNum 16) = Some (ResultSetV (IdNum 15)) \<and>
   out_moniker sampleStore (IdNum 15) = None \<and>
   in_previous sampleStore (IdNum 15) = Some sampleRange14 \<and>
   out_moniker sampleStore (IdNum 14) = None \<and>
   in_previous sampleStore (IdNum 14) = None \<and>
   findMonikers sampleStore [] (IdNum 16) = None"
  by (simp add: sample_loaded getResultForId_closed findMonikers_closed sampleStore_fields)

section \<open>references: one location per range, and the closure over a moniker key\<close>







lemma refsInvariant_fields:
  "locations acc' = locations acc \<Longrightarrow> dedupRanges acc' = dedupRanges acc \<Longrightarrow>
   refsInvariant pf st acc' = refsInvariant pf st acc"
  by (simp add: refsInvariant_def)




lemma resolves_grows: "resolves pf st inc ts acc acc' \<Longrightarrow> grows pf st acc acc'"
  by (auto simp: resolves_def grows_def)




















end
